theory Spec2Isabelle
  imports Complex_Main "HOL-Library.Char_ord" "HOL-Library.List_Lexorder"
begin

section \<open>Python values used by the diagnostic core\<close>

text \<open>
  The diagnostic core (\<^verbatim>\<open>backend/diagnosis/belief_engine.py\<close>,
  \<^verbatim>\<open>backend/analysis/tutorial_matcher.py\<close> and the answer handler of
  \<^verbatim>\<open>backend/main.py\<close>) computes with Python dictionaries, lists and floats.

  \<^item> A \<^verbatim>\<open>dict\<close> keeps its insertion order, and the code depends on it
    (\<^verbatim>\<open>list(current_beliefs.keys())[:3]\<close>, \<^verbatim>\<open>max\<close> over a dict): a dictionary is an
    association list with distinct keys, in insertion order.
  \<^item> A \<^verbatim>\<open>float\<close> is modelled by a real number: arithmetic is exact, there is no
    rounding, no infinity and no NaN.
  \<^item> Database queries are reads of a table snapshot (a list of rows, in the order the
    query returns them); a lost connection is not modelled.
  \<^item> Console output is kept only where it is a diagnostic of \<^verbatim>\<open>update_beliefs\<close>.
\<close>

datatype py_error = ValueError

type_synonym 'v pydict = "(string \<times> 'v) list"

definition dict_keys :: "('k \<times> 'v) list \<Rightarrow> 'k list" where
  "dict_keys d = map fst d"

definition dict_values :: "('k \<times> 'v) list \<Rightarrow> 'v list" where
  "dict_values d = map snd d"

definition dict_get :: "('k \<times> 'v) list \<Rightarrow> 'k \<Rightarrow> 'v option" where
  "dict_get d k = map_of d k"

text \<open>\<^verbatim>\<open>d[k] = v\<close>: an existing key keeps its position, a new key goes to the end.\<close>

fun dict_set :: "('k \<times> 'v) list \<Rightarrow> 'k \<Rightarrow> 'v \<Rightarrow> ('k \<times> 'v) list" where
  "dict_set [] k v = [(k, v)]"
| "dict_set ((k', v') # d) k v =
     (if k' = k then (k, v) # d else (k', v') # dict_set d k v)"

text \<open>A JSON value as far as the code inspects it (\<^verbatim>\<open>isinstance(multiplier, str)\<close>).\<close>

datatype json_val = JStr string | JNum real | JNull

subsection \<open>\<^verbatim>\<open>float(s)\<close> on a string\<close>

text \<open>
  The decimal literals of Python's \<^verbatim>\<open>float\<close>: surrounding whitespace, a sign, digits
  with an optional point, an optional exponent. \<^verbatim>\<open>None\<close> stands for the
  \<^verbatim>\<open>ValueError\<close>. The spellings \<^verbatim>\<open>inf\<close>, \<^verbatim>\<open>nan\<close> and digit-group underscores, which
  Python also accepts, have no real value here and are rejected.
\<close>

definition is_digit :: "char \<Rightarrow> bool" where
  "is_digit c \<longleftrightarrow> c \<in> set ''0123456789''"

definition digit_val :: "char \<Rightarrow> nat" where
  "digit_val c = (case map_of (zip ''0123456789'' [0, 1, 2, 3, 4, 5, 6, 7, 8, 9]) c of None \<Rightarrow> 0 | Some d \<Rightarrow> d)"

definition digits_val :: "string \<Rightarrow> nat" where
  "digits_val s = foldl (\<lambda>acc c. 10 * acc + digit_val c) 0 s"

definition is_space :: "char \<Rightarrow> bool" where
  "is_space c \<longleftrightarrow> c \<in> set [CHR '' '', CHR 0x09, CHR 0x0A, CHR 0x0B, CHR 0x0C, CHR 0x0D]"

definition py_strip :: "string \<Rightarrow> string" where
  "py_strip s = rev (dropWhile is_space (rev (dropWhile is_space s)))"

definition split_sign :: "string \<Rightarrow> bool \<times> string" where
  "split_sign s =
     (case s of
        [] \<Rightarrow> (False, [])
      | c # r \<Rightarrow> if c = CHR ''-'' then (True, r) else if c = CHR ''+'' then (False, r)
                else (False, s))"

definition is_exp_mark :: "char \<Rightarrow> bool" where
  "is_exp_mark c \<longleftrightarrow> c = CHR ''e'' \<or> c = CHR ''E''"

text \<open>The exponent part, after the mark: a sign and at least one digit.\<close>

definition parse_exponent :: "string \<Rightarrow> int option" where
  "parse_exponent s =
     (let (neg, ds) = split_sign s
      in if ds \<noteq> [] \<and> list_all is_digit ds
         then Some (if neg then - int (digits_val ds) else int (digits_val ds))
         else None)"

text \<open>The mantissa: digits, an optional point, digits; at least one digit in all.\<close>

definition parse_mantissa :: "string \<Rightarrow> real option" where
  "parse_mantissa s =
     (let ip = takeWhile is_digit s; r = dropWhile is_digit s;
          fp = (case r of [] \<Rightarrow> [] | c # r' \<Rightarrow> r');
          well = (case r of [] \<Rightarrow> True | c # r' \<Rightarrow> c = CHR ''.'' \<and> list_all is_digit r')
      in if well \<and> ip @ fp \<noteq> []
         then Some (real (digits_val (ip @ fp)) / 10 ^ length fp)
         else None)"

definition py_float :: "string \<Rightarrow> real option" where
  "py_float s0 =
     (let (neg, s) = split_sign (py_strip s0);
          m = takeWhile (\<lambda>c. \<not> is_exp_mark c) s;
          e = dropWhile (\<lambda>c. \<not> is_exp_mark c) s
      in case parse_mantissa m of
           None \<Rightarrow> None
         | Some x \<Rightarrow>
             (case (case e of [] \<Rightarrow> Some 0 | c # e' \<Rightarrow> parse_exponent e') of
                None \<Rightarrow> None
              | Some n \<Rightarrow> Some ((if neg then - x else x) * 10 powi n)))"

section \<open>The belief engine\<close>

type_synonym beliefs = "real pydict"

definition sum_values :: "beliefs \<Rightarrow> real" where
  "sum_values b = sum_list (dict_values b)"

text \<open>
  \<^verbatim>\<open>total = sum(beliefs.values()); if total > 0: beliefs = {k: v / total ...}\<close>
\<close>

definition normalize :: "beliefs \<Rightarrow> beliefs" where
  "normalize b =
     (let total = sum_values b
      in if total > 0 then map (\<lambda>(k, v). (k, v / total)) b else b)"

text \<open>
  \<^verbatim>\<open>dict(sorted(beliefs.items(), key=lambda x: x[1], reverse=True))\<close>: a stable sort,
  descending by probability; entries of equal probability keep their order.
\<close>

definition sort_desc :: "beliefs \<Rightarrow> beliefs" where
  "sort_desc b = sort_key (\<lambda>(k, v). - v) b"

subsection \<open>Rules, questions and the learned tables\<close>

text \<open>
  A base pattern of \<^verbatim>\<open>symptom_mappings.json\<close>. \<^verbatim>\<open>category\<close> and \<^verbatim>\<open>confidence\<close> are
  read with \<^verbatim>\<open>.get\<close> and may be absent; \<^verbatim>\<open>symptoms\<close> and \<^verbatim>\<open>causes\<close> are indexed.
\<close>

record pattern =
  p_category :: "string option"
  p_symptoms :: "string list"
  p_causes :: "real pydict"
  p_confidence :: "real option"

text \<open>A row of the table \<^verbatim>\<open>learned_patterns\<close>.\<close>

record learned_pattern =
  lp_symptom_combination :: "string list"
  lp_cause :: string
  lp_success_rate :: real
  lp_support_count :: int
  lp_approved :: bool
  lp_category :: string

text \<open>The \<^verbatim>\<open>skip_if\<close> dictionary of a question; every key is optional.\<close>

record skip_conditions =
  sk_brand_confidence :: "string option"
  sk_symptom_present :: "string list option"
  sk_symptom_not_present :: "string list option"
  sk_visual_symptoms_detected :: "string list option"

text \<open>
  A question dictionary: an entry of \<^verbatim>\<open>questions.json\<close>, or the dictionary that
  \<^verbatim>\<open>select_next_question\<close> builds for a learned question. \<^verbatim>\<open>id\<close> is indexed, the
  other keys are read with \<^verbatim>\<open>.get\<close>.
\<close>

record question =
  q_id :: string
  q_text :: "string option"
  q_category :: "string option"
  q_skip_if :: "skip_conditions option"
  q_information_gain_estimate :: "real option"
  q_belief_updates :: "json_val pydict pydict option"
  q_expected_signal :: "string option"
  q_cost_level :: "string option"
  q_source :: "string option"
  q_response_type :: "string option"

text \<open>A row of the table \<^verbatim>\<open>learned_questions\<close>.\<close>

record learned_question =
  lq_question_id :: string
  lq_question_text :: string
  lq_category :: string
  lq_information_gain_avg :: real
  lq_belief_updates_json :: "json_val pydict pydict option"
  lq_approved :: bool

text \<open>
  The engine object: \<^verbatim>\<open>base_patterns\<close> is the list of the JSON file,
  \<^verbatim>\<open>base_questions\<close> the dictionary \<^verbatim>\<open>{q["id"]: q for q in data["questions"]}\<close>, and the
  two tables are what \<^verbatim>\<open>db_pool\<close> reads.
\<close>

record engine =
  base_patterns :: "pattern list"
  base_questions :: "question pydict"
  learned_patterns :: "learned_pattern list"
  learned_questions :: "learned_question list"

subsection \<open>\<^verbatim>\<open>initialize_beliefs\<close>\<close>

text \<open>\<^verbatim>\<open>beliefs[cause] += w\<close>, after \<^verbatim>\<open>if cause not in beliefs: beliefs[cause] = 0.0\<close>.\<close>

definition add_belief :: "beliefs \<Rightarrow> string \<Rightarrow> real \<Rightarrow> beliefs" where
  "add_belief b cause w =
     (case dict_get b cause of
        None \<Rightarrow> dict_set b cause (0 + w)
      | Some v \<Rightarrow> dict_set b cause (v + w))"

text \<open>\<^verbatim>\<open>len(overlap) / len(pattern_symptoms)\<close> on the two sets.\<close>

definition overlap_ratio :: "string list \<Rightarrow> string list \<Rightarrow> real" where
  "overlap_ratio pattern_symptoms all_symptoms =
     real (card (set pattern_symptoms \<inter> set all_symptoms)) / real (card (set pattern_symptoms))"

definition alpha :: real where
  "alpha = 0.7"

text \<open>Step 1, one base pattern.\<close>

definition add_base_pattern :: "string \<Rightarrow> string list \<Rightarrow> beliefs \<Rightarrow> pattern \<Rightarrow> beliefs" where
  "add_base_pattern category all_symptoms b p =
     (if p_category p \<noteq> Some category then b
      else if set (p_symptoms p) \<inter> set all_symptoms \<noteq> {}
      then foldl (\<lambda>b' (cause, prob).
                    add_belief b' cause
                      (alpha * prob * overlap_ratio (p_symptoms p) all_symptoms
                         * (case p_confidence p of None \<Rightarrow> 1.0 | Some c \<Rightarrow> c)))
             b (p_causes p)
      else b)"

text \<open>Step 2, one learned pattern: \<^verbatim>\<open>w = r * (1 - math.exp(-n / n0))\<close> with \<^verbatim>\<open>n0 = 5\<close>.\<close>

definition add_learned_pattern :: "string list \<Rightarrow> beliefs \<Rightarrow> learned_pattern \<Rightarrow> beliefs" where
  "add_learned_pattern all_symptoms b lp =
     (if set (lp_symptom_combination lp) \<inter> set all_symptoms \<noteq> {}
      then add_belief b (lp_cause lp)
             ((1.0 - alpha)
                * (lp_success_rate lp * (1 - exp (- (real_of_int (lp_support_count lp)) / 5)))
                * overlap_ratio (lp_symptom_combination lp) all_symptoms)
      else b)"

text \<open>Steps 1 and 2: the belief vector before it is normalised.\<close>

definition accumulate_beliefs :: "engine \<Rightarrow> string list \<Rightarrow> string list \<Rightarrow> string \<Rightarrow> beliefs" where
  "accumulate_beliefs eng symptoms visual_symptoms category =
     (let all_symptoms = symptoms @ visual_symptoms;
          b1 = foldl (add_base_pattern category all_symptoms) [] (base_patterns eng);
          rows = filter (\<lambda>lp. lp_approved lp \<and> lp_category lp = category) (learned_patterns eng)
      in foldl (add_learned_pattern all_symptoms) b1 rows)"

definition initialize_beliefs :: "engine \<Rightarrow> string list \<Rightarrow> string list \<Rightarrow> string \<Rightarrow> beliefs" where
  "initialize_beliefs eng symptoms visual_symptoms category =
     sort_desc (normalize (accumulate_beliefs eng symptoms visual_symptoms category))"

subsection \<open>\<^verbatim>\<open>update_beliefs\<close>\<close>

text \<open>The warnings and notices that \<^verbatim>\<open>update_beliefs\<close> prints.\<close>

datatype diagnostic =
    WarnNotInBaseQuestions string
  | NoticeFoundLearned
  | WarnNotInLearnedQuestions
  | WarnNoBeliefUpdates string string
  | NoticeApplying nat

text \<open>
  The loop over \<^verbatim>\<open>updates.items()\<close>. A cause that is not in the vector is skipped; a
  multiplier is applied only if it is a string that starts with \<^verbatim>\<open>*\<close>, and then
  \<^verbatim>\<open>float(multiplier[1:])\<close> may raise.
\<close>

fun apply_updates :: "beliefs \<Rightarrow> json_val pydict \<Rightarrow> py_error + beliefs" where
  "apply_updates b [] = Inr b"
| "apply_updates b ((cause, multiplier) # us) =
     (case dict_get b cause of
        None \<Rightarrow> apply_updates b us
      | Some v \<Rightarrow>
          (case multiplier of
             JStr s \<Rightarrow>
               (if take 1 s = ''*''
                then (case py_float (drop 1 s) of
                        None \<Rightarrow> Inl ValueError
                      | Some factor \<Rightarrow> apply_updates (dict_set b cause (v * factor)) us)
                else apply_updates b us)
           | _ \<Rightarrow> apply_updates b us))"

text \<open>
  The row \<^verbatim>\<open>fetchrow\<close> returns for
  \<^verbatim>\<open>WHERE question_id = $1 AND approved = true\<close>.
\<close>

definition fetch_learned_question :: "engine \<Rightarrow> string \<Rightarrow> learned_question option" where
  "fetch_learned_question eng question_id =
     find (\<lambda>r. lq_question_id r = question_id \<and> lq_approved r) (learned_questions eng)"

text \<open>\<^verbatim>\<open>d.get(answer, {})\<close>.\<close>

definition get_or_empty :: "'v pydict pydict \<Rightarrow> string \<Rightarrow> 'v pydict" where
  "get_or_empty d k = (case dict_get d k of None \<Rightarrow> [] | Some u \<Rightarrow> u)"

text \<open>The part of \<^verbatim>\<open>update_beliefs\<close> after the update rules are found.\<close>

definition apply_and_normalize ::
  "diagnostic list \<Rightarrow> beliefs \<Rightarrow> string \<Rightarrow> string \<Rightarrow> json_val pydict
     \<Rightarrow> py_error + (diagnostic list \<times> beliefs)" where
  "apply_and_normalize lg current_beliefs question_id answer updates =
     (if updates = [] then Inr (lg @ [WarnNoBeliefUpdates answer question_id], current_beliefs)
      else case apply_updates current_beliefs updates of
             Inl e \<Rightarrow> Inl e
           | Inr b \<Rightarrow> Inr (lg @ [NoticeApplying (length updates)], sort_desc (normalize b)))"

text \<open>
  The first half of \<^verbatim>\<open>update_beliefs\<close>: the update rules for the answer, from the
  base question or else from an approved learned question. \<^verbatim>\<open>None\<close> is the early
  \<^verbatim>\<open>return current_beliefs\<close> for a question found in neither place.
\<close>

definition find_updates ::
  "engine \<Rightarrow> string \<Rightarrow> string \<Rightarrow> diagnostic list \<times> json_val pydict option" where
  "find_updates eng question_id answer =
     (case dict_get (base_questions eng) question_id of
        None \<Rightarrow>
          (case fetch_learned_question eng question_id of
             None \<Rightarrow> ([WarnNotInBaseQuestions question_id, WarnNotInLearnedQuestions], None)
           | Some learned_q \<Rightarrow>
               (case lq_belief_updates_json learned_q of
                  None \<Rightarrow> ([WarnNotInBaseQuestions question_id, WarnNotInLearnedQuestions], None)
                | Some ju \<Rightarrow>
                    if ju = []
                    then ([WarnNotInBaseQuestions question_id, WarnNotInLearnedQuestions], None)
                    else ([WarnNotInBaseQuestions question_id, NoticeFoundLearned],
                          Some (get_or_empty ju answer))))
      | Some question \<Rightarrow>
          ([], Some (get_or_empty
                       (case q_belief_updates question of None \<Rightarrow> [] | Some u \<Rightarrow> u) answer)))"

definition update_beliefs ::
  "engine \<Rightarrow> beliefs \<Rightarrow> string \<Rightarrow> string \<Rightarrow> py_error + (diagnostic list \<times> beliefs)" where
  "update_beliefs eng current_beliefs question_id answer =
     (case find_updates eng question_id answer of
        (lg, None) \<Rightarrow> Inr (lg, current_beliefs)
      | (lg, Some updates) \<Rightarrow>
          apply_and_normalize lg current_beliefs question_id answer updates)"

subsection \<open>\<^verbatim>\<open>get_confidence\<close> and \<^verbatim>\<open>get_diagnosis\<close>\<close>

text \<open>\<^verbatim>\<open>max(beliefs.values()) if beliefs else 0.0\<close>.\<close>

definition get_confidence :: "beliefs \<Rightarrow> real" where
  "get_confidence b = (case dict_values b of [] \<Rightarrow> 0.0 | v # vs \<Rightarrow> fold max vs v)"

text \<open>
  Python's \<^verbatim>\<open>max(xs, key=f)\<close> on a non-empty list: the first element whose key is
  the largest.
\<close>

fun py_max_by :: "('a \<Rightarrow> real) \<Rightarrow> 'a \<Rightarrow> 'a list \<Rightarrow> 'a" where
  "py_max_by f best [] = best"
| "py_max_by f best (x # xs) = py_max_by f (if f x > f best then x else best) xs"

text \<open>
  \<^verbatim>\<open>top_cause = max(beliefs, key=beliefs.get); confidence = beliefs[top_cause]\<close>, and
  the pair \<^verbatim>\<open>("unknown", 0.0)\<close> for the empty vector.
\<close>

definition get_diagnosis :: "beliefs \<Rightarrow> string \<times> real" where
  "get_diagnosis b =
     (case b of
        [] \<Rightarrow> (''unknown'', 0.0)
      | e # es \<Rightarrow>
          (let top_cause = py_max_by (\<lambda>k. the (dict_get b k)) (fst e) (dict_keys es)
           in (top_cause, the (dict_get b top_cause))))"

section \<open>The question selector\<close>

text \<open>
  The \<^verbatim>\<open>processed_input\<close> dictionary of a session, as the symptom extractor fills it.
  \<^verbatim>\<open>brand\<close> and \<^verbatim>\<open>brand_confidence\<close> are read with \<^verbatim>\<open>.get\<close>.
\<close>

record processed_input =
  pi_symptoms :: "string list"
  pi_visual_symptoms :: "string list"
  pi_keywords :: "string list"
  pi_category :: string
  pi_brand :: "string option"
  pi_brand_confidence :: "real option"

text \<open>The second component of the pair \<^verbatim>\<open>should_ask_question\<close> returns.\<close>

datatype skip_reason =
    QuestionNotFound
  | AlreadyAsked
  | BrandAlreadyKnown real
  | SymptomAlreadyDetected
  | NotRelevantToSymptoms
  | VisualAlreadyProvided
  | LowInformationGain real
  | NoTopCauseAffected
  | VeryHighConfidence real

text \<open>\<^verbatim>\<open>any(s in detected for s in required)\<close>.\<close>

definition any_in :: "string list \<Rightarrow> string list \<Rightarrow> bool" where
  "any_in required detected \<longleftrightarrow> list_ex (\<lambda>s. s \<in> set detected) required"

text \<open>
  Criterion 1, the redundancy checks on \<^verbatim>\<open>skip_if\<close>. The threshold is
  \<^verbatim>\<open>float(threshold_str.replace(">", "").replace("<", ""))\<close>, which may raise.
\<close>

definition redundancy_check :: "skip_conditions \<Rightarrow> processed_input \<Rightarrow> py_error + skip_reason option" where
  "redundancy_check sc inp =
     (let detected = pi_symptoms inp @ pi_visual_symptoms inp;
          rest =
            (if (case sk_symptom_present sc of None \<Rightarrow> False | Some req \<Rightarrow> any_in req detected)
             then Some SymptomAlreadyDetected
             else if (case sk_symptom_not_present sc of
                        None \<Rightarrow> False | Some req \<Rightarrow> \<not> any_in req detected)
             then Some NotRelevantToSymptoms
             else if (case sk_visual_symptoms_detected sc of
                        None \<Rightarrow> False | Some req \<Rightarrow> any_in req (pi_visual_symptoms inp))
             then Some VisualAlreadyProvided
             else None)
      in case sk_brand_confidence sc of
           None \<Rightarrow> Inr rest
         | Some threshold_str \<Rightarrow>
             (case py_float (filter (\<lambda>c. c \<noteq> CHR ''<'') (filter (\<lambda>c. c \<noteq> CHR ''>'') threshold_str)) of
                None \<Rightarrow> Inl ValueError
              | Some threshold \<Rightarrow>
                  (let brand_conf = (case pi_brand_confidence inp of None \<Rightarrow> 0.0 | Some c \<Rightarrow> c)
                   in if CHR ''>'' \<in> set threshold_str \<and> brand_conf > threshold
                      then Inr (Some (BrandAlreadyKnown brand_conf))
                      else Inr rest)))"

text \<open>
  Criterion 3: does an answer of the question update one of the first three causes of
  the belief vector (\<^verbatim>\<open>list(current_beliefs.keys())[:3]\<close>)?
\<close>

definition question_affects_top_causes :: "question \<Rightarrow> beliefs \<Rightarrow> bool" where
  "question_affects_top_causes q b =
     (let top_causes = take 3 (dict_keys b)
      in list_ex (\<lambda>(answer_key, updates). list_ex (\<lambda>cause. cause \<in> set top_causes) (dict_keys updates))
           (case q_belief_updates q of None \<Rightarrow> [] | Some u \<Rightarrow> u))"

definition should_ask_question ::
  "engine \<Rightarrow> string \<Rightarrow> beliefs \<Rightarrow> processed_input \<Rightarrow> string list
     \<Rightarrow> py_error + (bool \<times> skip_reason option)" where
  "should_ask_question eng question_id current_beliefs inp asked_questions =
     (case dict_get (base_questions eng) question_id of
        None \<Rightarrow> Inr (False, Some QuestionNotFound)
      | Some question \<Rightarrow>
          if question_id \<in> set asked_questions then Inr (False, Some AlreadyAsked)
          else
            (case (case q_skip_if question of
                     None \<Rightarrow> Inr None | Some sc \<Rightarrow> redundancy_check sc inp) of
               Inl e \<Rightarrow> Inl e
             | Inr (Some reason) \<Rightarrow> Inr (False, Some reason)
             | Inr None \<Rightarrow>
                 (let ig_estimate =
                        (case q_information_gain_estimate question of None \<Rightarrow> 0.0 | Some g \<Rightarrow> g)
                  in if ig_estimate < 0.6 then Inr (False, Some (LowInformationGain ig_estimate))
                     else if \<not> question_affects_top_causes question current_beliefs
                     then Inr (False, Some NoTopCauseAffected)
                     else if get_confidence current_beliefs > 0.9
                     then Inr (False, Some (VeryHighConfidence (get_confidence current_beliefs)))
                     else Inr (True, None))))"

subsection \<open>\<^verbatim>\<open>select_next_question\<close>\<close>

text \<open>The dictionary built for a row of \<^verbatim>\<open>learned_questions\<close>.\<close>

definition learned_candidate :: "learned_question \<Rightarrow> question" where
  "learned_candidate lq =
     \<lparr>q_id = lq_question_id lq, q_text = Some (lq_question_text lq),
      q_category = Some (lq_category lq), q_skip_if = None,
      q_information_gain_estimate = Some (lq_information_gain_avg lq),
      q_belief_updates = None, q_expected_signal = None, q_cost_level = None,
      q_source = Some ''learned'', q_response_type = None\<rparr>"

text \<open>
  The base questions of the category that were not asked, in the order of
  \<^verbatim>\<open>base_questions\<close>, followed by the approved learned questions of the category
  that were not asked.
\<close>

definition candidate_questions :: "engine \<Rightarrow> string list \<Rightarrow> string \<Rightarrow> question list" where
  "candidate_questions eng asked_questions category =
     map snd (filter (\<lambda>(q_id, q). q_category q = Some category \<and> q_id \<notin> set asked_questions)
                (base_questions eng))
     @ map learned_candidate
         (filter (\<lambda>lq. lq_question_id lq \<notin> set asked_questions)
            (filter (\<lambda>lq. lq_approved lq \<and> lq_category lq = category) (learned_questions eng)))"

text \<open>The loop that keeps the candidates \<^verbatim>\<open>should_ask_question\<close> accepts.\<close>

fun valid_questions ::
  "engine \<Rightarrow> beliefs \<Rightarrow> processed_input \<Rightarrow> string list \<Rightarrow> question list
     \<Rightarrow> py_error + question list" where
  "valid_questions eng b inp asked [] = Inr []"
| "valid_questions eng b inp asked (q # qs) =
     (case should_ask_question eng (q_id q) b inp asked of
        Inl e \<Rightarrow> Inl e
      | Inr (should_ask, reason) \<Rightarrow>
          (case valid_questions eng b inp asked qs of
             Inl e \<Rightarrow> Inl e
           | Inr vs \<Rightarrow> Inr (if should_ask then q # vs else vs)))"

text \<open>The key of the final \<^verbatim>\<open>max\<close>: \<^verbatim>\<open>q.get("information_gain_estimate", 0.5)\<close>.\<close>

definition gain_key :: "question \<Rightarrow> real" where
  "gain_key q = (case q_information_gain_estimate q of None \<Rightarrow> 0.5 | Some g \<Rightarrow> g)"

text \<open>
  The last step: a selected dictionary without \<^verbatim>\<open>expected_signal\<close> whose id is a
  base question takes \<^verbatim>\<open>expected_signal\<close> and \<^verbatim>\<open>cost_level\<close> from it.
\<close>

definition fill_required_fields :: "engine \<Rightarrow> question \<Rightarrow> question" where
  "fill_required_fields eng best =
     (if q_expected_signal best = None
      then (case dict_get (base_questions eng) (q_id best) of
              None \<Rightarrow> best
            | Some base_q \<Rightarrow>
                best\<lparr>q_expected_signal :=
                       Some (case q_expected_signal base_q of None \<Rightarrow> ''behavioral'' | Some x \<Rightarrow> x),
                     q_cost_level :=
                       Some (case q_cost_level base_q of None \<Rightarrow> ''safe'' | Some x \<Rightarrow> x)\<rparr>)
      else best)"

definition select_next_question ::
  "engine \<Rightarrow> beliefs \<Rightarrow> processed_input \<Rightarrow> string list \<Rightarrow> string
     \<Rightarrow> py_error + question option" where
  "select_next_question eng current_beliefs inp asked_questions category =
     (case valid_questions eng current_beliefs inp asked_questions
             (candidate_questions eng asked_questions category) of
        Inl e \<Rightarrow> Inl e
      | Inr [] \<Rightarrow> Inr None
      | Inr (v # vs) \<Rightarrow> Inr (Some (fill_required_fields eng (py_max_by gain_key v vs))))"

section \<open>The tutorial matcher\<close>

text \<open>The columns a search result carries.\<close>

record tutorial_info =
  t_tutorial_id :: int
  t_brand :: "string option"
  t_model :: "string option"
  t_issue_type :: "string option"
  t_title :: string
  t_keywords :: "string list"
  t_source :: "string option"
  t_difficulty :: "string option"

text \<open>
  A stored tutorial: a row of the table \<^verbatim>\<open>tutorials\<close>, or an object of the Weaviate
  class \<^verbatim>\<open>Tutorial\<close>. Both stores have a \<^verbatim>\<open>category\<close> property
  (\<^verbatim>\<open>scripts/add_category_column.py\<close>, \<^verbatim>\<open>database/setup_weaviate.py\<close>).
\<close>

record tutorial_row =
  row_info :: tutorial_info
  row_category :: "string option"

text \<open>A row of the table \<^verbatim>\<open>user_feedback\<close>, as far as the matcher reads it.\<close>

record feedback_row =
  fb_tutorial_id :: int
  fb_solved_problem :: "bool option"
  fb_clarity_rating :: "int option"
  fb_accuracy_rating :: "int option"

text \<open>
  The matcher object with what it reads. The vector index is external: it holds the
  objects and ranks them by a distance to the query text, which is a parameter here.
  A query that fails (the \<^verbatim>\<open>except\<close> branches of the matcher) is not modelled.
\<close>

record matcher =
  weaviate_objects :: "tutorial_row list"
  near_text_distance :: "string \<Rightarrow> tutorial_info \<Rightarrow> real"
  tutorials_table :: "tutorial_row list"
  user_feedback :: "feedback_row list"

definition beta :: real where
  "beta = 0.6"

definition gamma :: real where
  "gamma = 0.3"

text \<open>The dictionaries of the four stages.\<close>

record vector_hit =
  vh_info :: tutorial_info
  vh_vector_score :: real

record keyword_hit =
  kh_info :: tutorial_info
  kh_keyword_score :: real

record hybrid_result =
  hr_info :: tutorial_info
  hr_vector_score :: real
  hr_keyword_score :: real
  hr_hybrid_score :: real
  hr_id :: int

record final_result =
  fr_hybrid :: hybrid_result
  fr_feedback_score :: real
  fr_final_score :: real
  fr_feedback_count :: nat

text \<open>\<^verbatim>\<open>if brand:\<close> on an optional string.\<close>

definition truthy :: "string option \<Rightarrow> bool" where
  "truthy x \<longleftrightarrow> x \<noteq> None \<and> x \<noteq> Some []"

text \<open>
  \<^verbatim>\<open>_vector_search\<close>: the query has a \<^verbatim>\<open>where\<close> filter on the brand only, the limit
  \<^verbatim>\<open>k\<close>, and asks for the distance. The parameter \<^verbatim>\<open>category\<close> is not used.
\<close>

definition vector_search :: "matcher \<Rightarrow> string \<Rightarrow> string \<Rightarrow> string option \<Rightarrow> nat \<Rightarrow> vector_hit list" where
  "vector_search m search_text category brand k =
     (let objs = (if truthy brand
                  then filter (\<lambda>r. t_brand (row_info r) = brand) (weaviate_objects m)
                  else weaviate_objects m);
          tutorials = take k (sort_key (\<lambda>r. near_text_distance m search_text (row_info r)) objs)
      in map (\<lambda>r. \<lparr>vh_info = row_info r,
                    vh_vector_score =
                      max 0.0 (1.0 - near_text_distance m search_text (row_info r))\<rparr>)
           tutorials)"

text \<open>\<^verbatim>\<open>intersection / union if union > 0 else 0.0\<close> on the two keyword sets.\<close>

definition jaccard :: "string list \<Rightarrow> string list \<Rightarrow> real" where
  "jaccard tutorial_keywords search_keywords =
     (if card (set tutorial_keywords \<union> set search_keywords) > 0
      then real (card (set tutorial_keywords \<inter> set search_keywords))
             / real (card (set tutorial_keywords \<union> set search_keywords))
      else 0.0)"

text \<open>
  \<^verbatim>\<open>_keyword_search\<close>: \<^verbatim>\<open>WHERE 1=1\<close>, then \<^verbatim>\<open>AND brand = $n\<close> if a brand is given and
  \<^verbatim>\<open>AND keywords && $n\<close> if the keyword list is not empty, then \<^verbatim>\<open>LIMIT\<close>. The
  parameter \<^verbatim>\<open>category\<close> is not used.
\<close>

definition keyword_search :: "matcher \<Rightarrow> string list \<Rightarrow> string \<Rightarrow> string option \<Rightarrow> nat \<Rightarrow> keyword_hit list" where
  "keyword_search m keywords category brand limit =
     (let rows1 = (if truthy brand
                   then filter (\<lambda>r. t_brand (row_info r) = brand) (tutorials_table m)
                   else tutorials_table m);
          rows2 = (if keywords \<noteq> []
                   then filter (\<lambda>r. set (t_keywords (row_info r)) \<inter> set keywords \<noteq> {}) rows1
                   else rows1)
      in map (\<lambda>r. \<lparr>kh_info = row_info r,
                    kh_keyword_score = jaccard (t_keywords (row_info r)) keywords\<rparr>)
           (take limit rows2))"

text \<open>
  \<^verbatim>\<open>{r["tutorial_id"]: r for r in results}\<close>: a later result with the same id replaces
  the earlier one, at the earlier one's place.
\<close>

definition lookup_by_id :: "('a \<Rightarrow> int) \<Rightarrow> 'a list \<Rightarrow> (int \<times> 'a) list" where
  "lookup_by_id ident rs = foldl (\<lambda>d r. dict_set d (ident r) r) [] rs"

text \<open>
  \<^verbatim>\<open>_hybrid_scoring\<close>. The loop runs over a Python \<^verbatim>\<open>set\<close> of ids, whose order the
  language does not fix; here the ids of the vector results come first, then the new
  ids of the keyword results. The final sort is stable.
\<close>

definition hybrid_scoring :: "vector_hit list \<Rightarrow> keyword_hit list \<Rightarrow> hybrid_result list" where
  "hybrid_scoring vector_results keyword_results =
     (let vector_lookup = lookup_by_id (\<lambda>r. t_tutorial_id (vh_info r)) vector_results;
          keyword_lookup = lookup_by_id (\<lambda>r. t_tutorial_id (kh_info r)) keyword_results;
          all_ids = dict_keys vector_lookup
                    @ filter (\<lambda>i. i \<notin> set (dict_keys vector_lookup)) (dict_keys keyword_lookup);
          hybrid_results =
            concat (map (\<lambda>tid.
              (let vec = dict_get vector_lookup tid; kw = dict_get keyword_lookup tid;
                   vec_score = (case vec of None \<Rightarrow> 0.0 | Some v \<Rightarrow> vh_vector_score v);
                   kw_score = (case kw of None \<Rightarrow> 0.0 | Some k \<Rightarrow> kh_keyword_score k);
                   hybrid_score = beta * vec_score + (1 - beta) * kw_score
               in case (case vec of Some v \<Rightarrow> Some (vh_info v)
                                  | None \<Rightarrow> map_option kh_info kw) of
                    None \<Rightarrow> []
                  | Some info \<Rightarrow>
                      [\<lparr>hr_info = info, hr_vector_score = vec_score, hr_keyword_score = kw_score,
                        hr_hybrid_score = hybrid_score, hr_id = t_tutorial_id info\<rparr>])) all_ids)
      in sort_key (\<lambda>r. - hr_hybrid_score r) hybrid_results)"

text \<open>
  The aggregate row of \<^verbatim>\<open>user_feedback\<close> for one tutorial: \<^verbatim>\<open>COUNT(*)\<close>, the average
  of \<^verbatim>\<open>CASE WHEN solved_problem THEN 1.0 ELSE 0.0 END\<close>, and the average of
  \<^verbatim>\<open>(clarity_rating + accuracy_rating) / 10.0\<close> over the rows where it is not null.
\<close>

definition sql_avg :: "real list \<Rightarrow> real option" where
  "sql_avg xs = (if xs = [] then None else Some (sum_list xs / real (length xs)))"

definition feedback_stats :: "matcher \<Rightarrow> int \<Rightarrow> nat \<times> real option \<times> real option" where
  "feedback_stats m tid =
     (let rows = filter (\<lambda>f. fb_tutorial_id f = tid) (user_feedback m)
      in (length rows,
          sql_avg (map (\<lambda>f. if fb_solved_problem f = Some True then 1.0 else 0.0) rows),
          sql_avg (concat (map (\<lambda>f.
                     (case (fb_clarity_rating f, fb_accuracy_rating f) of
                        (Some c, Some a) \<Rightarrow> [real_of_int (c + a) / 10.0]
                      | _ \<Rightarrow> [])) rows))))"

text \<open>\<^verbatim>\<open>x or d\<close> on an optional float: \<^verbatim>\<open>None\<close> and \<^verbatim>\<open>0.0\<close> both give \<^verbatim>\<open>d\<close>.\<close>

definition or_default :: "real option \<Rightarrow> real \<Rightarrow> real" where
  "or_default x d = (case x of None \<Rightarrow> d | Some v \<Rightarrow> if v = 0 then d else v)"

text \<open>The body of the loop of \<^verbatim>\<open>_feedback_reranking\<close>, for one result.\<close>

definition rerank_one :: "matcher \<Rightarrow> hybrid_result \<Rightarrow> final_result" where
  "rerank_one m r =
     (case feedback_stats m (t_tutorial_id (hr_info r)) of
        (feedback_count, success_rate, avg_rating) \<Rightarrow>
          if feedback_count > 0
          then (let feedback_score = (or_default success_rate 0.0 + or_default avg_rating 0.5) / 2.0
                in \<lparr>fr_hybrid = r, fr_feedback_score = feedback_score,
                    fr_final_score = hr_hybrid_score r * (1 + gamma * feedback_score),
                    fr_feedback_count = feedback_count\<rparr>)
          else \<lparr>fr_hybrid = r, fr_feedback_score = 0.5,
                fr_final_score = hr_hybrid_score r, fr_feedback_count = 0\<rparr>)"

definition feedback_reranking :: "matcher \<Rightarrow> hybrid_result list \<Rightarrow> final_result list" where
  "feedback_reranking m results = sort_key (\<lambda>r. - fr_final_score r) (map (rerank_one m) results)"

text \<open>\<^verbatim>\<open>' '.join(xs)\<close>.\<close>

fun join_space :: "string list \<Rightarrow> string" where
  "join_space [] = []"
| "join_space [x] = x"
| "join_space (x # y # ys) = x @ '' '' @ join_space (y # ys)"

definition search_tutorials_hybrid ::
  "matcher \<Rightarrow> string \<Rightarrow> string list \<Rightarrow> string list \<Rightarrow> string \<Rightarrow> string option \<Rightarrow> nat
     \<Rightarrow> final_result list" where
  "search_tutorials_hybrid m diagnosis symptoms keywords category brand limit =
     (let text0 = diagnosis @ '' '' @ join_space symptoms @ '' '' @ join_space keywords;
          search_text = (case brand of
                           None \<Rightarrow> text0
                         | Some br \<Rightarrow> if br = [] then text0 else br @ '' '' @ text0);
          vector_results = vector_search m search_text category brand 50;
          keyword_results = keyword_search m keywords category brand 50;
          hybrid_results = hybrid_scoring vector_results keyword_results;
          final_results = feedback_reranking m hybrid_results
      in take limit final_results)"

section \<open>Free-text answers and open questions\<close>

text \<open>\<^verbatim>\<open>str.lower()\<close> on the ASCII letters; other characters are left as they are.\<close>

definition lower_char :: "char \<Rightarrow> char" where
  "lower_char c =
     (case map_of (zip ''ABCDEFGHIJKLMNOPQRSTUVWXYZ'' ''abcdefghijklmnopqrstuvwxyz'') c of
        None \<Rightarrow> c | Some l \<Rightarrow> l)"

definition py_lower :: "string \<Rightarrow> string" where
  "py_lower s = map lower_char s"

text \<open>\<^verbatim>\<open>kw in s\<close> on strings: \<^verbatim>\<open>kw\<close> occurs in \<^verbatim>\<open>s\<close> as a contiguous piece.\<close>

fun is_substring :: "string \<Rightarrow> string \<Rightarrow> bool" where
  "is_substring kw [] = (kw = [])"
| "is_substring kw (c # cs) = (take (length kw) (c # cs) = kw \<or> is_substring kw cs)"

definition symptom_keywords :: "string list pydict" where
  "symptom_keywords =
     [(''driver_issue'', [''driver'', ''software'', ''update'', ''install'']),
      (''malware'', [''virus'', ''malware'', ''suspicious'', ''popup'', ''slow'']),
      (''hardware_failure'', [''hardware'', ''physical'', ''damaged'', ''broken'']),
      (''display_cable_loose'', [''screen'', ''display'', ''flicker'', ''blank'']),
      (''gpu_overheating'', [''hot'', ''overheat'', ''thermal'', ''fan loud'']),
      (''ram_failure'', [''memory'', ''ram'', ''beep'']),
      (''power_supply_failure'', [''power'', ''won't turn on'', ''dead'']),
      (''motherboard_dead'', [''motherboard'', ''no power'', ''nothing happens'']),
      (''os_corruption'', [''corrupt'', ''boot loop'', ''startup repair'']),
      (''thermal_throttling'', [''slow'', ''throttle'', ''performance drop'', ''overheat'']),
      (''disk_fragmentation'', [''slow'', ''lag'', ''disk'', ''storage'']),
      (''background_processes'', [''background'', ''startup'', ''many programs''])]"

text \<open>The causes with at least one keyword in the answer, with the number of hits.\<close>

definition keyword_scores :: "string \<Rightarrow> nat pydict" where
  "keyword_scores answer_lower =
     filter (\<lambda>(cause, score). score > 0)
       (map (\<lambda>(cause, keywords).
               (cause, length (filter (\<lambda>kw. is_substring kw answer_lower) keywords)))
          symptom_keywords)"

text \<open>
  One step of the boost loop: a cause of the vector is multiplied by
  \<^verbatim>\<open>1.0 + score * 0.5\<close>; a cause that is not in it is added with \<^verbatim>\<open>0.1 * score\<close>
  when the score is at least 2.
\<close>

definition semantic_boost :: "beliefs \<Rightarrow> string \<times> nat \<Rightarrow> beliefs" where
  "semantic_boost b cs =
     (case cs of (cause, score) \<Rightarrow>
        (case dict_get b cause of
           Some v \<Rightarrow> dict_set b cause (v * (1.0 + real score * 0.5))
         | None \<Rightarrow> if score \<ge> 2 then dict_set b cause (0.1 * real score) else b))"

definition update_beliefs_semantic :: "beliefs \<Rightarrow> string \<Rightarrow> beliefs" where
  "update_beliefs_semantic current_beliefs answer_text =
     (let scores = keyword_scores (py_lower answer_text)
      in if scores \<noteq> []
         then sort_desc (normalize (foldl semantic_boost current_beliefs scores))
         else current_beliefs)"

text \<open>\<^verbatim>\<open>str(n)\<close> for a length.\<close>

definition digit_char :: "nat \<Rightarrow> char" where
  "digit_char d = (''0123456789'' ! d)"

fun string_of_nat :: "nat \<Rightarrow> string" where
  "string_of_nat n =
     (if n < 10 then [digit_char n] else string_of_nat (n div 10) @ [digit_char (n mod 10)])"

definition text_question :: "string \<Rightarrow> string \<Rightarrow> real \<Rightarrow> question" where
  "text_question ident txt gain =
     \<lparr>q_id = ident, q_text = Some txt, q_category = None, q_skip_if = None,
      q_information_gain_estimate = Some gain, q_belief_updates = None,
      q_expected_signal = Some ''text'', q_cost_level = Some ''safe'',
      q_source = None, q_response_type = Some ''text''\<rparr>"

definition question_templates :: "((string \<times> string) \<times> string) list" where
  "question_templates =
     [((''driver_issue'', ''malware''),
       ''Have you recently installed any new software, drivers, or updates? Or have you noticed any suspicious behavior?''),
      ((''driver_issue'', ''hardware_failure''),
       ''Does the issue occur in Safe Mode? And have you checked if any hardware components are loose?''),
      ((''gpu_overheating'', ''display_cable_loose''),
       ''Is the screen issue constant or does it come and go? Does the laptop feel hot?''),
      ((''power_supply_failure'', ''motherboard_dead''),
       ''When you press the power button, do you see ANY lights or hear ANY sounds at all?''),
      ((''ram_failure'', ''os_corruption''),
       ''Do you hear any beeping sounds during startup? And does it show any error messages?''),
      ((''thermal_throttling'', ''background_processes''),
       ''Does the slowdown happen immediately or after a few minutes of use? Have you checked Task Manager?'')]"

text \<open>
  The loop over the templates: the first template that matches the two top causes, in
  either order, and whose id was not asked.
\<close>

fun find_template :: "string \<Rightarrow> string \<Rightarrow> string list \<Rightarrow> ((string \<times> string) \<times> string) list
    \<Rightarrow> question option" where
  "find_template top_cause second_cause asked [] = None"
| "find_template top_cause second_cause asked (((cause1, cause2), txt) # ts) =
     (if ((top_cause = cause1 \<and> second_cause = cause2) \<or> (top_cause = cause2 \<and> second_cause = cause1))
         \<and> ''text_'' @ cause1 @ ''_'' @ cause2 \<notin> set asked
      then Some (text_question (''text_'' @ cause1 @ ''_'' @ cause2) txt 0.85)
      else find_template top_cause second_cause asked ts)"

definition generate_text_question :: "beliefs \<Rightarrow> string list \<Rightarrow> question option" where
  "generate_text_question current_beliefs asked_questions =
     (let general_id = ''text_general_'' @ string_of_nat (length asked_questions)
      in case sort_desc current_beliefs of
           (top_cause, top_prob) # (second_cause, second_prob) # rest \<Rightarrow>
             if top_prob > 0.75 then None
             else (case find_template top_cause second_cause asked_questions question_templates of
                     Some q \<Rightarrow> Some q
                   | None \<Rightarrow>
                       if general_id \<notin> set asked_questions
                       then Some (text_question general_id
                         ''Can you describe in more detail what happens when the issue occurs? Any specific error messages or behaviors?''
                         0.7)
                       else None)
         | _ \<Rightarrow>
             if general_id \<notin> set asked_questions
             then Some (text_question general_id
               ''Can you describe in detail what's happening with your laptop? Include when the issue started, what you were doing, and any error messages or unusual behavior.''
               0.9)
             else None)"

section \<open>The answer handler of the session orchestrator\<close>

text \<open>
  An entry of \<^verbatim>\<open>active_sessions\<close>. The keys \<^verbatim>\<open>last_question_text\<close>,
  \<^verbatim>\<open>confidence_history\<close>, \<^verbatim>\<open>diagnosis\<close> and \<^verbatim>\<open>confidence\<close> are not in every session.
  The key \<^verbatim>\<open>initial_belief\<close> is left out: at first it is the same dictionary object as
  \<^verbatim>\<open>current_belief\<close>, which the belief updates change in place.
\<close>

record session =
  s_processed_input :: processed_input
  s_current_belief :: beliefs
  s_asked_questions :: "string list"
  s_last_question_text :: "string option"
  s_confidence_history :: "real list option"
  s_diagnosis :: "string option"
  s_confidence :: "real option"

text \<open>\<^verbatim>\<open>AnswerQuestionInput\<close>.\<close>

record answer_input =
  a_session_id :: string
  a_question_id :: string
  a_answer :: string
  a_response_type :: "string option"

record tutorial_summary =
  ts_tutorial_id :: int
  ts_title :: string
  ts_brand :: "string option"
  ts_difficulty :: "string option"
  ts_final_score :: real

text \<open>
  \<^verbatim>\<open>EnhancedDiagnosisResponse\<close>, without \<^verbatim>\<open>initial_belief\<close>; of the log entry only the
  action is kept.
\<close>

record response =
  resp_session_id :: string
  resp_diagnosis_state :: string
  resp_current_belief :: beliefs
  resp_next_question :: "question option"
  resp_tutorials :: "tutorial_summary list option"
  resp_log_action :: string

datatype http_error = HTTP_404 | HTTP_500

text \<open>
  The process state the handler uses. The rows the handler inserts into
  \<^verbatim>\<open>belief_snapshots\<close>, \<^verbatim>\<open>question_interactions\<close> and \<^verbatim>\<open>diagnostic_logs\<close> are not read
  by it and are left out; so is the state after an error.
\<close>

record system =
  sys_engine :: engine
  sys_matcher :: matcher
  active_sessions :: "session pydict"

definition bypass_keywords :: "string list" where
  "bypass_keywords =
     [''show tutorials'', ''skip questions'', ''just show me tutorials'', ''show me solutions'']"

definition bypass_requested :: "string \<Rightarrow> bool" where
  "bypass_requested answer \<longleftrightarrow> list_ex (\<lambda>keyword. is_substring keyword (py_lower answer)) bypass_keywords"

text \<open>
  The belief update of the handler: the semantic update for a text response of more
  than 10 characters, the rule-based update otherwise.
\<close>

definition update_step :: "engine \<Rightarrow> session \<Rightarrow> answer_input \<Rightarrow> py_error + beliefs" where
  "update_step eng s ad =
     (if a_response_type ad = Some ''text'' \<and> length (a_answer ad) > 10
      then Inr (update_beliefs_semantic (s_current_belief s) (a_answer ad))
      else (case update_beliefs eng (s_current_belief s) (a_question_id ad) (a_answer ad) of
              Inl e \<Rightarrow> Inl e
            | Inr (lg, b) \<Rightarrow> Inr b))"

text \<open>
  The stagnation check on \<^verbatim>\<open>confidence_history\<close>: at least three values, and
  \<^verbatim>\<open>last_3_confidences[-1] - last_3_confidences[0] < 0.05\<close>.
\<close>

definition confidence_stagnating :: "real list \<Rightarrow> bool" where
  "confidence_stagnating history =
     (case drop (length history - 3) history of
        [c0, c1, c2] \<Rightarrow> c2 - c0 < 0.05
      | _ \<Rightarrow> False)"

definition tutorial_summaries :: "final_result list \<Rightarrow> tutorial_summary list" where
  "tutorial_summaries tutorials =
     map (\<lambda>t. \<lparr>ts_tutorial_id = t_tutorial_id (hr_info (fr_hybrid t)),
               ts_title = t_title (hr_info (fr_hybrid t)),
               ts_brand = t_brand (hr_info (fr_hybrid t)),
               ts_difficulty = t_difficulty (hr_info (fr_hybrid t)),
               ts_final_score = fr_final_score t\<rparr>) tutorials"

definition match_tutorials :: "matcher \<Rightarrow> processed_input \<Rightarrow> string \<Rightarrow> nat \<Rightarrow> tutorial_summary list" where
  "match_tutorials m inp top_cause limit =
     tutorial_summaries
       (search_tutorials_hybrid m top_cause (pi_symptoms inp) (pi_keywords inp)
          (pi_category inp) (pi_brand inp) limit)"

text \<open>
  The handler after the session is found and the answer is no bypass request:
  \<^verbatim>\<open>s\<close> is the session, \<^verbatim>\<open>updated_belief\<close> the result of the belief update.
\<close>

definition after_update ::
  "system \<Rightarrow> session \<Rightarrow> answer_input \<Rightarrow> beliefs \<Rightarrow> http_error + (response \<times> system)" where
  "after_update sys s ad updated_belief =
     (let sid = a_session_id ad;
          asked = s_asked_questions s @ [a_question_id ad];
          history = (case s_confidence_history s of None \<Rightarrow> [] | Some h \<Rightarrow> h)
                    @ [get_confidence updated_belief];
          s1 = s\<lparr>s_current_belief := updated_belief, s_asked_questions := asked,
                 s_confidence_history := Some history\<rparr>;
          inp = s_processed_input s;
          max_confidence = get_confidence updated_belief
      in if confidence_stagnating history \<and> length asked \<ge> 2
         then (case get_diagnosis updated_belief of (top_cause, confidence) \<Rightarrow>
                 Inr (\<lparr>resp_session_id = sid, resp_diagnosis_state = ''uncertain'',
                       resp_current_belief = updated_belief, resp_next_question = None,
                       resp_tutorials = Some (match_tutorials (sys_matcher sys) inp top_cause 8),
                       resp_log_action = ''confidence_stagnating_escape''\<rparr>,
                      sys\<lparr>active_sessions :=
                            dict_set (active_sessions sys) sid
                              (s1\<lparr>s_diagnosis := Some top_cause, s_confidence := Some confidence\<rparr>)\<rparr>))
         else if max_confidence \<ge> 0.75
         then (case get_diagnosis updated_belief of (top_cause, confidence) \<Rightarrow>
                 Inr (\<lparr>resp_session_id = sid, resp_diagnosis_state = ''complete'',
                       resp_current_belief = updated_belief, resp_next_question = None,
                       resp_tutorials = Some (match_tutorials (sys_matcher sys) inp top_cause 5),
                       resp_log_action = ''confidence_threshold_reached''\<rparr>,
                      sys\<lparr>active_sessions :=
                            dict_set (active_sessions sys) sid
                              (s1\<lparr>s_diagnosis := Some top_cause, s_confidence := Some confidence\<rparr>)\<rparr>))
         else
           (case (case generate_text_question updated_belief asked of
                    Some q \<Rightarrow> Inr (Some q)
                  | None \<Rightarrow> select_next_question (sys_engine sys) updated_belief inp asked
                              (pi_category inp)) of
              Inl e \<Rightarrow> Inl HTTP_500
            | Inr None \<Rightarrow>
                (case get_diagnosis updated_belief of (top_cause, confidence) \<Rightarrow>
                   Inr (\<lparr>resp_session_id = sid, resp_diagnosis_state = ''uncertain'',
                         resp_current_belief = updated_belief, resp_next_question = None,
                         resp_tutorials = Some (match_tutorials (sys_matcher sys) inp top_cause 5),
                         resp_log_action = ''no_more_questions''\<rparr>,
                        sys\<lparr>active_sessions := dict_set (active_sessions sys) sid s1\<rparr>))
            | Inr (Some next_question) \<Rightarrow>
                Inr (\<lparr>resp_session_id = sid, resp_diagnosis_state = ''questioning'',
                      resp_current_belief = updated_belief,
                      resp_next_question = Some next_question, resp_tutorials = None,
                      resp_log_action = ''next_question_selected''\<rparr>,
                     sys\<lparr>active_sessions :=
                           dict_set (active_sessions sys) sid
                             (s1\<lparr>s_last_question_text :=
                                   Some (case q_text next_question of None \<Rightarrow> [] | Some t \<Rightarrow> t)\<rparr>)\<rparr>)))"

text \<open>
  \<^verbatim>\<open>answer_diagnostic_question\<close>. An unknown session is the 404; any other exception
  becomes the 500, among them \<^verbatim>\<open>max\<close> of an empty vector in the bypass branch.
\<close>

definition answer_question :: "system \<Rightarrow> answer_input \<Rightarrow> http_error + (response \<times> system)" where
  "answer_question sys ad =
     (case dict_get (active_sessions sys) (a_session_id ad) of
        None \<Rightarrow> Inl HTTP_404
      | Some s \<Rightarrow>
          if bypass_requested (a_answer ad)
          then (if s_current_belief s = [] then Inl HTTP_500
                else Inr (\<lparr>resp_session_id = a_session_id ad, resp_diagnosis_state = ''tutorials'',
                           resp_current_belief = s_current_belief s, resp_next_question = None,
                           resp_tutorials = Some [],
                           resp_log_action = ''user_requested_tutorials''\<rparr>, sys))
          else (case update_step (sys_engine sys) s ad of
                  Inl e \<Rightarrow> Inl HTTP_500
                | Inr updated_belief \<Rightarrow> after_update sys s ad updated_belief))"

section \<open>Notions used in the properties\<close>

text \<open>
  The condition under which the update loop applies a multiplier:
  \<^verbatim>\<open>isinstance(multiplier, str) and multiplier.startswith("*")\<close>.
\<close>

definition star_form :: "json_val \<Rightarrow> bool" where
  "star_form m = (case m of JStr s \<Rightarrow> take 1 s = ''*'' | _ \<Rightarrow> False)"

text \<open>
  The specification's reading of an update: the factor stored for a cause (1 if there
  is none in applicable form), and the vector with every cause it already has
  multiplied by its factor.
\<close>

definition stored_factor :: "json_val pydict \<Rightarrow> string \<Rightarrow> real" where
  "stored_factor updates cause =
     (case dict_get updates cause of
        Some (JStr s) \<Rightarrow>
          (if take 1 s = ''*'' then (case py_float (drop 1 s) of Some f \<Rightarrow> f | None \<Rightarrow> 1)
           else 1)
      | _ \<Rightarrow> 1)"

definition scale_present :: "beliefs \<Rightarrow> json_val pydict \<Rightarrow> beliefs" where
  "scale_present b updates = map (\<lambda>(cause, v). (cause, v * stored_factor updates cause)) b"

text \<open>A question id is known if it is a base question or an approved learned question.\<close>

definition known_question :: "engine \<Rightarrow> string \<Rightarrow> bool" where
  "known_question eng question_id \<longleftrightarrow>
     dict_get (base_questions eng) question_id \<noteq> None
     \<or> fetch_learned_question eng question_id \<noteq> None"

text \<open>A vector of positive total is normalised if the total is 1.\<close>

definition normalized_if_positive :: "beliefs \<Rightarrow> bool" where
  "normalized_if_positive b \<longleftrightarrow> (0 < sum_values b \<longrightarrow> sum_values b = 1)"

text \<open>Scenarios A and B of the specification, with two more answers to the question.\<close>

definition scenario_engine :: engine where
  "scenario_engine =
     \<lparr>base_patterns =
        [\<lparr>p_category = Some ''PC'', p_symptoms = [''no_power'', ''led_off''],
          p_causes = [(''power_supply'', 0.8), (''battery'', 0.2)], p_confidence = Some 1.0\<rparr>],
      base_questions =
        [(''battery_led'',
          \<lparr>q_id = ''battery_led'', q_text = Some ''Is the battery LED on?'',
           q_category = Some ''PC'', q_skip_if = None,
           q_information_gain_estimate = Some 0.8,
           q_belief_updates =
             Some [(''no'', [(''power_supply'', JStr ''*1.8''), (''battery'', JStr ''*0.6'')]),
                   (''yes'', [(''power_supply'', JNum 2), (''battery'', JStr ''0.5'')]),
                   (''never'', [(''power_supply'', JStr ''*0''), (''battery'', JStr ''*0'')])],
           q_expected_signal = Some ''visual'', q_cost_level = Some ''safe'',
           q_source = None, q_response_type = None\<rparr>)],
      learned_patterns = [], learned_questions = []\<rparr>"

definition scenario_beliefs :: beliefs where
  "scenario_beliefs = [(''battery'', 0.5), (''power_supply'', 0.5)]"

text \<open>
  A selector scenario: two base questions of equal gain, stored in the order
  \<open>q_b\<close>, \<open>q_a\<close>, and one approved learned question of higher gain.
\<close>

definition fan_question :: "string \<Rightarrow> question" where
  "fan_question ident =
     \<lparr>q_id = ident, q_text = Some ''Does the fan spin when the laptop starts?'',
      q_category = Some ''PC'', q_skip_if = None,
      q_information_gain_estimate = Some 0.8,
      q_belief_updates = Some [(''yes'', [(''fan_failure'', JStr ''*0.5'')]),
                               (''no'', [(''fan_failure'', JStr ''*1.5'')])],
      q_expected_signal = Some ''visual'', q_cost_level = Some ''safe'',
      q_source = None, q_response_type = None\<rparr>"

definition learned_fan_row :: learned_question where
  "learned_fan_row =
     \<lparr>lq_question_id = ''lq_fan_noise'', lq_question_text = ''Is the fan louder than usual?'',
      lq_category = ''PC'', lq_information_gain_avg = 0.9,
      lq_belief_updates_json = Some [(''yes'', [(''fan_failure'', JStr ''*1.6'')])],
      lq_approved = True\<rparr>"

definition selector_engine :: engine where
  "selector_engine =
     \<lparr>base_patterns = [],
      base_questions = [(''q_b'', fan_question ''q_b''), (''q_a'', fan_question ''q_a'')],
      learned_patterns = [],
      learned_questions = [learned_fan_row]\<rparr>"

definition selector_beliefs :: beliefs where
  "selector_beliefs = [(''fan_failure'', 0.5), (''dust_buildup'', 0.5)]"

definition selector_input :: processed_input where
  "selector_input =
     \<lparr>pi_symptoms = [''overheating''], pi_visual_symptoms = [], pi_keywords = [''fan'', ''hot''],
      pi_category = ''PC'', pi_brand = None, pi_brand_confidence = None\<rparr>"

text \<open>
  Scenario C of the specification: tutorial 7 at distance 0.2, five keywords of which
  two are query keywords, and no feedback. Its category is \<open>Phone\<close>.
\<close>

definition tutorial_7 :: tutorial_info where
  "tutorial_7 =
     \<lparr>t_tutorial_id = 7, t_brand = Some ''Dell'', t_model = Some ''XPS 13'',
      t_issue_type = Some ''battery'', t_title = ''Battery replacement'',
      t_keywords = [''battery'', ''power'', ''charging'', ''replace'', ''dell''],
      t_source = Some ''ifixit'', t_difficulty = Some ''moderate''\<rparr>"

definition scenario_matcher :: matcher where
  "scenario_matcher =
     \<lparr>weaviate_objects = [\<lparr>row_info = tutorial_7, row_category = Some ''Phone''\<rparr>],
      near_text_distance = (\<lambda>search_text t. 0.2),
      tutorials_table = [\<lparr>row_info = tutorial_7, row_category = Some ''Phone''\<rparr>],
      user_feedback = []\<rparr>"

text \<open>
  Scenario D: a session with two questions asked and the confidence history
  0.35, 0.40, 0.42, whose third answer raises the confidence to 0.44.
\<close>

definition stagnation_engine :: engine where
  "stagnation_engine =
     \<lparr>base_patterns = [],
      base_questions =
        [(''bios_reset'',
          \<lparr>q_id = ''bios_reset'', q_text = Some ''Did the problem start after a BIOS change?'',
           q_category = Some ''PC'', q_skip_if = None,
           q_information_gain_estimate = Some 0.7,
           q_belief_updates = Some [(''no'', [(''bios_settings'', JStr ''*0.5'')]),
                                    (''yes'', [(''bios_settings'', JStr ''*2.0'')])],
           q_expected_signal = Some ''behavioral'', q_cost_level = Some ''safe'',
           q_source = None, q_response_type = None\<rparr>)],
      learned_patterns = [], learned_questions = []\<rparr>"

definition stagnation_session :: session where
  "stagnation_session =
     \<lparr>s_processed_input = selector_input,
      s_current_belief = [(''fan_failure'', 21 / 50), (''dust_buildup'', 3 / 10),
                          (''thermal_paste'', 52 / 275), (''bios_settings'', 1 / 11)],
      s_asked_questions = [''q_b'', ''q_a''],
      s_last_question_text = Some ''Did the problem start after a BIOS change?'',
      s_confidence_history = Some [0.35, 0.40, 0.42],
      s_diagnosis = None, s_confidence = None\<rparr>"

definition stagnation_system :: system where
  "stagnation_system =
     \<lparr>sys_engine = stagnation_engine, sys_matcher = scenario_matcher,
      active_sessions = [(''session-1'', stagnation_session)]\<rparr>"

definition stagnation_answer :: answer_input where
  "stagnation_answer =
     \<lparr>a_session_id = ''session-1'', a_question_id = ''bios_reset'', a_answer = ''no'',
      a_response_type = Some ''binary''\<rparr>"

section \<open>Properties\<close>

subsection \<open>Auxiliary facts about dictionaries, normalisation and sorting\<close>

lemmas py_float_defs = py_float_def py_strip_def split_sign_def is_space_def is_exp_mark_def
  parse_mantissa_def parse_exponent_def is_digit_def digits_val_def digit_val_def

lemmas update_defs = update_beliefs_def find_updates_def apply_and_normalize_def
  fetch_learned_question_def get_or_empty_def dict_get_def normalize_def sort_desc_def
  sum_values_def dict_values_def

lemma dict_set_present:
  "distinct (map fst b) \<Longrightarrow> map_of b k = Some v \<Longrightarrow>
   dict_set b k w = map (\<lambda>(c, x). (c, if c = k then w else x)) b"
proof (induction b)
  case Nil
  then show ?case by simp
next
  case (Cons e b)
  obtain k' v' where e: "e = (k', v')" by (cases e)
  show ?case
  proof (cases "k' = k")
    case True
    with Cons.prems e have "k \<notin> fst ` set b" by auto
    then have "map (\<lambda>(c, x). (c, if c = k then w else x)) b = b"
      by (induction b) auto
    with True e show ?thesis by simp
  next
    case False
    with Cons e show ?thesis by simp
  qed
qed

lemma dict_keys_dict_set_present:
  "map_of b k = Some v \<Longrightarrow> map fst (dict_set b k w) = map fst b"
  by (induction b) (auto split: if_splits)

lemma sum_list_insort_key:
  "sum_list (map g (insort_key f x xs)) = g x + sum_list (map g xs)" for g :: "'a \<Rightarrow> real"
  by (induction xs) auto

lemma sum_values_sort_desc: "sum_values (sort_desc b) = sum_values b"
  unfolding sum_values_def sort_desc_def dict_values_def
  by (induction b) (auto simp: sum_list_insort_key)

lemma sum_values_scaled:
  "sum_values (map (\<lambda>(k, v). (k, v / t)) b) = sum_values b / t"
  unfolding sum_values_def dict_values_def
  by (induction b) (auto simp: add_divide_distrib)

lemma sum_values_normalize:
  "0 < sum_values b \<Longrightarrow> sum_values (normalize b) = 1"
  by (simp add: normalize_def Let_def sum_values_scaled)

lemma normalize_nonpos: "\<not> 0 < sum_values b \<Longrightarrow> normalize b = b"
  by (simp add: normalize_def Let_def)

lemma normalized_if_positive_result: "normalized_if_positive (sort_desc (normalize b))"
  unfolding normalized_if_positive_def
  by (cases "0 < sum_values b")
     (simp_all add: sum_values_sort_desc sum_values_normalize normalize_nonpos)

lemma normalize_unit: "sum_values b = 1 \<Longrightarrow> normalize b = b"
  by (simp add: normalize_def Let_def map_idI split: prod.splits)

lemma dict_keys_normalize: "dict_keys (normalize b) = dict_keys b"
  by (simp add: normalize_def Let_def dict_keys_def comp_def case_prod_unfold)

lemma set_sort_desc: "set (sort_desc b) = set b"
  by (simp add: sort_desc_def)

lemma distinct_keys_insort:
  "distinct (map fst (insort_key f x xs)) \<longleftrightarrow> fst x \<notin> fst ` set xs \<and> distinct (map fst xs)"
  by (induction xs) (auto simp: set_insort_key)

lemma distinct_keys_sort_desc: "distinct (dict_keys b) \<Longrightarrow> distinct (dict_keys (sort_desc b))"
  unfolding dict_keys_def sort_desc_def
  by (induction b) (auto simp: distinct_keys_insort)

lemma dict_get_sort_desc:
  assumes d: "distinct (dict_keys b)"
  shows "dict_get (sort_desc b) c = dict_get b c"
proof -
  have "map_of (sort_desc b) = map_of b"
    using map_of_inject_set[of "sort_desc b" b] d distinct_keys_sort_desc[OF d] set_sort_desc[of b]
    by (simp add: dict_keys_def)
  then show ?thesis by (simp add: dict_get_def)
qed

lemma sorted_sort_desc: "sorted (map (\<lambda>(k, v). - v) (sort_desc b))"
  by (simp add: sort_desc_def)

lemma dict_keys_scale_present: "dict_keys (scale_present b updates) = dict_keys b"
  by (simp add: scale_present_def dict_keys_def comp_def case_prod_unfold)

lemma set_keys_sort_desc: "set (dict_keys (sort_desc b)) = set (dict_keys b)"
  by (simp add: dict_keys_def set_sort_desc)

subsection \<open>The update loop against the specification's reading\<close>

lemma apply_updates_skip:
  "\<not> star_form m \<Longrightarrow> apply_updates b ((cause, m) # us) = apply_updates b us"
  by (auto simp: star_form_def split: json_val.splits option.splits)

lemma apply_updates_none_applicable:
  "\<forall>e \<in> set updates. \<not> star_form (snd e) \<Longrightarrow> apply_updates b updates = Inr b"
proof (induction updates)
  case Nil
  then show ?case by simp
next
  case (Cons u us)
  obtain cause m where u: "u = (cause, m)" by (cases u)
  with Cons.prems have "\<not> star_form m" by simp
  then have "apply_updates b (u # us) = apply_updates b us"
    unfolding u by (rule apply_updates_skip)
  with Cons show ?case by simp
qed

lemma scale_present_cong:
  assumes "\<And>c. c \<in> set (dict_keys b) \<Longrightarrow> stored_factor us c = stored_factor vs c"
  shows "scale_present b us = scale_present b vs"
  unfolding scale_present_def
proof (rule map_cong[OF refl])
  fix e assume "e \<in> set b"
  then have "fst e \<in> set (dict_keys b)" by (simp add: dict_keys_def)
  then show "(case e of (c, v) \<Rightarrow> (c, v * stored_factor us c))
           = (case e of (c, v) \<Rightarrow> (c, v * stored_factor vs c))"
    using assms by (cases e) simp
qed

lemma apply_updates_scale:
  "distinct (dict_keys updates) \<Longrightarrow> distinct (dict_keys b) \<Longrightarrow>
   apply_updates b updates = Inr b1 \<Longrightarrow> b1 = scale_present b updates"
proof (induction updates arbitrary: b)
  case Nil
  then show ?case by (simp add: scale_present_def stored_factor_def dict_get_def)
next
  case (Cons u us)
  obtain cause m where u: "u = (cause, m)" by (cases u)
  from Cons.prems(1) u have dus: "distinct (dict_keys us)"
    and notin: "cause \<notin> set (dict_keys us)"
    by (simp_all add: dict_keys_def)
  have fresh: "stored_factor us cause = 1"
    using notin
    by (simp add: stored_factor_def dict_get_def dict_keys_def map_of_eq_None_iff[THEN iffD2])
  have other: "\<And>c. c \<noteq> cause \<Longrightarrow> stored_factor (u # us) c = stored_factor us c"
    using u by (simp add: stored_factor_def dict_get_def)
  show ?case
  proof (cases "dict_get b cause")
    case None
    then have nb: "cause \<notin> set (dict_keys b)"
      by (simp add: dict_get_def dict_keys_def map_of_eq_None_iff)
    from None Cons.prems(3) u have "apply_updates b us = Inr b1" by simp
    then have "b1 = scale_present b us" using Cons.IH dus Cons.prems(2) by blast
    moreover have "scale_present b (u # us) = scale_present b us"
    proof (rule scale_present_cong)
      fix c assume "c \<in> set (dict_keys b)"
      with nb have "c \<noteq> cause" by auto
      then show "stored_factor (u # us) c = stored_factor us c" by (rule other)
    qed
    ultimately show ?thesis by simp
  next
    case (Some v)
    then have mv: "map_of b cause = Some v" by (simp add: dict_get_def)
    show ?thesis
    proof (cases "star_form m")
      case False
      then have "apply_updates b (u # us) = apply_updates b us"
        unfolding u by (rule apply_updates_skip)
      with Cons.prems(3) have "apply_updates b us = Inr b1" by simp
      then have "b1 = scale_present b us" using Cons.IH dus Cons.prems(2) by blast
      moreover have one: "stored_factor (u # us) cause = 1"
        using False u
        by (auto simp: stored_factor_def dict_get_def star_form_def split: json_val.splits)
      have "scale_present b (u # us) = scale_present b us"
      proof (rule scale_present_cong)
        fix c show "stored_factor (u # us) c = stored_factor us c"
          using other[of c] one fresh by (cases "c = cause") simp_all
      qed
      ultimately show ?thesis by simp
    next
      case True
      then obtain s where m: "m = JStr s" and st: "take 1 s = ''*''"
        by (auto simp: star_form_def split: json_val.splits)
      from Cons.prems(3) u Some m st obtain f where
        pf: "py_float (drop 1 s) = Some f" and
        rec: "apply_updates (dict_set b cause (v * f)) us = Inr b1"
        by (auto split: option.splits)
      have fac: "stored_factor (u # us) cause = f"
        using u m st pf by (simp add: stored_factor_def dict_get_def)
      have dk: "distinct (dict_keys (dict_set b cause (v * f)))"
        using Cons.prems(2) dict_keys_dict_set_present[OF mv] by (simp add: dict_keys_def)
      from rec have b1: "b1 = scale_present (dict_set b cause (v * f)) us"
        using Cons.IH dus dk by blast
      have ds: "dict_set b cause (v * f) = map (\<lambda>(c, x). (c, if c = cause then v * f else x)) b"
        using dict_set_present[OF _ mv] Cons.prems(2) by (simp add: dict_keys_def)
      have "scale_present (dict_set b cause (v * f)) us = scale_present b (u # us)"
        unfolding scale_present_def ds map_map
      proof (rule map_cong[OF refl])
        fix e assume e: "e \<in> set b"
        obtain c x where ee: "e = (c, x)" by (cases e)
        show "((\<lambda>(c, v). (c, v * stored_factor us c)) \<circ> (\<lambda>(c, x). (c, if c = cause then v * f else x))) e
              = (case e of (c, v) \<Rightarrow> (c, v * stored_factor (u # us) c))"
        proof (cases "c = cause")
          case True
          with e ee Cons.prems(2) mv have "x = v" by (simp add: dict_keys_def)
          with True ee fresh fac show ?thesis by simp
        next
          case False
          with ee other show ?thesis by simp
        qed
      qed
      with b1 show ?thesis by simp
    qed
  qed
qed

lemma update_beliefs_applied:
  assumes "find_updates eng question_id answer = (lg, Some updates)" and "updates \<noteq> []"
    and "update_beliefs eng b question_id answer = Inr (lg', b')"
  obtains b1 where "apply_updates b updates = Inr b1" and "b' = sort_desc (normalize b1)"
    and "lg' = lg @ [NoticeApplying (length updates)]"
  using assms
  by (auto simp: update_beliefs_def apply_and_normalize_def split: sum.splits)

lemma update_beliefs_result_cases:
  assumes "update_beliefs eng b question_id answer = Inr (lg, b')"
  shows "b' = b \<or> (\<exists>b1. b' = sort_desc (normalize b1))"
  using assms
  by (auto simp: update_beliefs_def apply_and_normalize_def
           split: prod.splits option.splits sum.splits if_splits)
subsection \<open>Claims about the belief engine\<close>

text \<open>
  Claim C3. For every belief vector \<open>b\<close>, every question id that is neither a base
  question nor an approved learned question, and every answer, \<open>update_beliefs\<close> returns
  \<open>b\<close> unchanged; the call does not fail, and it reports the two warnings.
\<close>

theorem update_beliefs_unknown_question_noop:
  "\<not> known_question eng question_id \<Longrightarrow>
   update_beliefs eng b question_id answer
     = Inr ([WarnNotInBaseQuestions question_id, WarnNotInLearnedQuestions], b)"
  by (simp add: known_question_def update_beliefs_def find_updates_def)

theorem update_beliefs_unknown_question_noop_witness:
  "\<not> known_question scenario_engine ''fan_noise''
   \<and> update_beliefs scenario_engine scenario_beliefs ''fan_noise'' ''yes''
     = Inr ([WarnNotInBaseQuestions ''fan_noise'', WarnNotInLearnedQuestions],
            [(''battery'', 0.5), (''power_supply'', 0.5)])"
proof -
  have h: "\<not> known_question scenario_engine ''fan_noise''"
    by (simp add: known_question_def scenario_engine_def dict_get_def fetch_learned_question_def)
  show ?thesis
    using h update_beliefs_unknown_question_noop[OF h, of scenario_beliefs "''yes''"]
    by (simp add: scenario_beliefs_def)
qed

text \<open>
  Claim C4, as stated: every non-empty vector that \<open>initialize_beliefs\<close> or
  \<open>update_beliefs\<close> produces has a total within \<open>10\<^sup>-\<^sup>6\<close> of 1. It fails when every
  cause is multiplied by 0: the total is 0, the guard \<^verbatim>\<open>if total > 0\<close> skips the
  division, and the vector is returned as it is.
\<close>

theorem normalization_counterexample:
  "update_beliefs scenario_engine scenario_beliefs ''battery_led'' ''never''
     = Inr ([NoticeApplying 2], [(''battery'', 0), (''power_supply'', 0)])
   \<and> [(''battery'', 0), (''power_supply'', 0 :: real)] \<noteq> []
   \<and> \<not> \<bar>sum_values [(''battery'', 0), (''power_supply'', 0)] - 1\<bar> < 1 / 10 ^ 6"
  by (simp add: scenario_engine_def scenario_beliefs_def update_defs py_float_defs)

text \<open>
  Claim C4, amended: a vector of positive total that \<open>initialize_beliefs\<close> produces has
  total exactly 1, and \<open>update_beliefs\<close> keeps that property: if the vector it is given
  has total 1 whenever its total is positive, so has the vector it returns.
\<close>

theorem normalization_invariant:
  "normalized_if_positive (initialize_beliefs eng symptoms visual_symptoms category)
   \<and> (normalized_if_positive b \<longrightarrow> update_beliefs eng b question_id answer = Inr (lg, b')
        \<longrightarrow> normalized_if_positive b')"
proof (intro conjI impI)
  show "normalized_if_positive (initialize_beliefs eng symptoms visual_symptoms category)"
    unfolding initialize_beliefs_def by (rule normalized_if_positive_result)
next
  assume inv: "normalized_if_positive b"
    and upd: "update_beliefs eng b question_id answer = Inr (lg, b')"
  from update_beliefs_result_cases[OF upd] show "normalized_if_positive b'"
    using inv normalized_if_positive_result by auto
qed

theorem normalization_invariant_witness:
  "sum_values (initialize_beliefs scenario_engine [''no_power'', ''led_off''] [] ''PC'') = 1
   \<and> normalized_if_positive scenario_beliefs
   \<and> update_beliefs scenario_engine scenario_beliefs ''battery_led'' ''no''
       = Inr ([NoticeApplying 2], [(''power_supply'', 0.75), (''battery'', 0.25)])
   \<and> sum_values [(''power_supply'', 0.75), (''battery'', 0.25)] = 1"
proof -
  have init: "initialize_beliefs scenario_engine [''no_power'', ''led_off''] [] ''PC''
                = [(''power_supply'', 0.8), (''battery'', 0.2)]"
    by (simp add: scenario_engine_def initialize_beliefs_def accumulate_beliefs_def
          add_base_pattern_def add_belief_def overlap_ratio_def alpha_def update_defs)
  have pos: "0 < sum_values (initialize_beliefs scenario_engine [''no_power'', ''led_off''] [] ''PC'')"
    unfolding init by (simp add: sum_values_def dict_values_def)
  have inv: "normalized_if_positive scenario_beliefs"
    by (simp add: normalized_if_positive_def scenario_beliefs_def sum_values_def dict_values_def)
  have upd: "update_beliefs scenario_engine scenario_beliefs ''battery_led'' ''no''
               = Inr ([NoticeApplying 2], [(''power_supply'', 0.75), (''battery'', 0.25)])"
    by (simp add: scenario_engine_def scenario_beliefs_def update_defs py_float_defs)
  have pos': "0 < sum_values [(''power_supply'', 0.75), (''battery'', 0.25)]"
    by (simp add: sum_values_def dict_values_def)
  from normalization_invariant[of scenario_engine "[''no_power'', ''led_off'']" "[]" "''PC''"
         scenario_beliefs "''battery_led''" "''no''" "[NoticeApplying 2]"
         "[(''power_supply'', 0.75), (''battery'', 0.25)]"]
  show ?thesis
    using pos inv upd pos' unfolding normalized_if_positive_def by blast
qed

text \<open>
  Claim C5. When \<open>update_beliefs\<close> applies the update rules of an answer, the result is
  the given vector with exactly its own causes, each multiplied by the factor stored
  for it, then normalised and sorted in descending order; no cause is added. In
  scenario B, \<open>{battery: 0.5, power_supply: 0.5}\<close> with the answer \<open>no\<close> becomes
  \<open>{power_supply: 0.75, battery: 0.25}\<close>.
\<close>

theorem update_beliefs_scales_present_causes:
  "(distinct (dict_keys b) \<and> distinct (dict_keys updates) \<and> updates \<noteq> []
      \<and> find_updates eng question_id answer = (lg, Some updates)
      \<and> update_beliefs eng b question_id answer = Inr (lg', b')
    \<longrightarrow> b' = sort_desc (normalize (scale_present b updates))
        \<and> set (dict_keys b') = set (dict_keys b)
        \<and> length b' = length b
        \<and> sorted (map (\<lambda>(cause, v). - v) b'))
   \<and> update_beliefs scenario_engine [(''battery'', 0.5), (''power_supply'', 0.5)] ''battery_led'' ''no''
       = Inr ([NoticeApplying 2], [(''power_supply'', 0.75), (''battery'', 0.25)])"
proof (intro conjI impI)
  assume a: "distinct (dict_keys b) \<and> distinct (dict_keys updates) \<and> updates \<noteq> []
      \<and> find_updates eng question_id answer = (lg, Some updates)
      \<and> update_beliefs eng b question_id answer = Inr (lg', b')"
  then obtain b1 where b1: "apply_updates b updates = Inr b1"
    and b': "b' = sort_desc (normalize b1)"
    by (elim conjE update_beliefs_applied) auto
  from a b1 have sc: "b1 = scale_present b updates"
    using apply_updates_scale by blast
  show eq: "b' = sort_desc (normalize (scale_present b updates))"
    using b' sc by simp
  show "set (dict_keys b') = set (dict_keys b)"
    unfolding eq by (simp add: set_keys_sort_desc dict_keys_normalize dict_keys_scale_present)
  show "length b' = length b"
    unfolding eq
    using arg_cong[OF dict_keys_normalize[of "scale_present b updates"], of length]
    by (simp add: sort_desc_def dict_keys_def scale_present_def)
  show "sorted (map (\<lambda>(cause, v). - v) b')"
    unfolding eq by (rule sorted_sort_desc)
next
  show "update_beliefs scenario_engine [(''battery'', 0.5), (''power_supply'', 0.5)] ''battery_led'' ''no''
       = Inr ([NoticeApplying 2], [(''power_supply'', 0.75), (''battery'', 0.25)])"
    by (simp add: scenario_engine_def update_defs py_float_defs)
qed

theorem update_beliefs_scales_present_causes_witness:
  "distinct (dict_keys scenario_beliefs)
   \<and> find_updates scenario_engine ''battery_led'' ''no''
       = ([], Some [(''power_supply'', JStr ''*1.8''), (''battery'', JStr ''*0.6'')])
   \<and> update_beliefs scenario_engine scenario_beliefs ''battery_led'' ''no''
       = Inr ([NoticeApplying 2], [(''power_supply'', 0.75), (''battery'', 0.25)])
   \<and> [(''power_supply'', 0.75), (''battery'', 0.25)]
       = sort_desc (normalize (scale_present scenario_beliefs
            [(''power_supply'', JStr ''*1.8''), (''battery'', JStr ''*0.6'')]))"
proof -
  have d: "distinct (dict_keys scenario_beliefs)"
    by (simp add: scenario_beliefs_def dict_keys_def)
  have du: "distinct (dict_keys [(''power_supply'', JStr ''*1.8''), (''battery'', JStr ''*0.6'')])"
    by (simp add: dict_keys_def)
  have fu: "find_updates scenario_engine ''battery_led'' ''no''
       = ([], Some [(''power_supply'', JStr ''*1.8''), (''battery'', JStr ''*0.6'')])"
    by (simp add: scenario_engine_def find_updates_def get_or_empty_def dict_get_def)
  have upd: "update_beliefs scenario_engine scenario_beliefs ''battery_led'' ''no''
       = Inr ([NoticeApplying 2], [(''power_supply'', 0.75), (''battery'', 0.25)])"
    by (simp add: scenario_engine_def scenario_beliefs_def update_defs py_float_defs)
  from update_beliefs_scales_present_causes[of scenario_beliefs
         "[(''power_supply'', JStr ''*1.8''), (''battery'', JStr ''*0.6'')]"
         scenario_engine "''battery_led''" "''no''" "[]" "[NoticeApplying 2]"
         "[(''power_supply'', 0.75), (''battery'', 0.25)]"]
  show ?thesis using d du fu upd by blast
qed

text \<open>
  Claim C9. On the empty belief vector \<open>get_diagnosis\<close> returns the pair
  \<open>("unknown", 0.0)\<close> and \<open>get_confidence\<close> returns \<open>0.0\<close>; neither fails.
\<close>

theorem empty_beliefs_sentinel:
  "get_diagnosis [] = (''unknown'', 0) \<and> get_confidence [] = 0"
  by (simp add: get_diagnosis_def get_confidence_def dict_values_def)

text \<open>
  Claim C10. The update loop applies an entry only if its multiplier is a string that
  starts with \<open>*\<close>. An entry of any other form is passed over without an error, as if
  it were not there. When no entry of the answer has that form, the call succeeds and
  only normalises and sorts the given vector, so every cause of a vector with distinct
  causes and total 1 keeps its probability.
\<close>

theorem non_star_multiplier_is_ignored:
  "(\<not> star_form m \<longrightarrow> apply_updates b ((cause, m) # us) = apply_updates b us)
   \<and> ((\<forall>e \<in> set updates. \<not> star_form (snd e)) \<and> updates \<noteq> []
        \<and> find_updates eng question_id answer = (lg, Some updates)
      \<longrightarrow> update_beliefs eng b question_id answer
            = Inr (lg @ [NoticeApplying (length updates)], sort_desc (normalize b))
          \<and> (distinct (dict_keys b) \<and> sum_values b = 1
               \<longrightarrow> (\<forall>c. dict_get (sort_desc (normalize b)) c = dict_get b c)))"
proof (intro conjI impI allI)
  assume "\<not> star_form m"
  then show "apply_updates b ((cause, m) # us) = apply_updates b us"
    by (rule apply_updates_skip)
next
  assume a: "(\<forall>e \<in> set updates. \<not> star_form (snd e)) \<and> updates \<noteq> []
        \<and> find_updates eng question_id answer = (lg, Some updates)"
  then have "apply_updates b updates = Inr b"
    using apply_updates_none_applicable by blast
  with a show "update_beliefs eng b question_id answer
            = Inr (lg @ [NoticeApplying (length updates)], sort_desc (normalize b))"
    by (simp add: update_beliefs_def apply_and_normalize_def)
next
  fix c
  assume "distinct (dict_keys b) \<and> sum_values b = 1"
  then show "dict_get (sort_desc (normalize b)) c = dict_get b c"
    by (simp add: normalize_unit dict_get_sort_desc)
qed

theorem non_star_multiplier_is_ignored_witness:
  "\<not> star_form (JNum 2) \<and> \<not> star_form (JStr ''0.5'')
   \<and> apply_updates scenario_beliefs [(''power_supply'', JNum 2), (''battery'', JStr ''*0.6'')]
       = apply_updates scenario_beliefs [(''battery'', JStr ''*0.6'')]
   \<and> find_updates scenario_engine ''battery_led'' ''yes''
       = ([], Some [(''power_supply'', JNum 2), (''battery'', JStr ''0.5'')])
   \<and> update_beliefs scenario_engine scenario_beliefs ''battery_led'' ''yes''
       = Inr ([NoticeApplying 2], [(''battery'', 0.5), (''power_supply'', 0.5)])
   \<and> dict_get (sort_desc (normalize scenario_beliefs)) ''power_supply'' = Some 0.5"
proof -
  have s1: "\<not> star_form (JNum 2)" and s2: "\<not> star_form (JStr ''0.5'')"
    by (simp_all add: star_form_def)
  have all: "\<forall>e \<in> set [(''power_supply'', JNum 2), (''battery'', JStr ''0.5'')]. \<not> star_form (snd e)"
    using s1 s2 by simp
  have fu: "find_updates scenario_engine ''battery_led'' ''yes''
       = ([], Some [(''power_supply'', JNum 2), (''battery'', JStr ''0.5'')])"
    by (simp add: scenario_engine_def find_updates_def get_or_empty_def dict_get_def)
  have d: "distinct (dict_keys scenario_beliefs)" and t: "sum_values scenario_beliefs = 1"
    by (simp_all add: scenario_beliefs_def dict_keys_def sum_values_def dict_values_def)
  have srt: "sort_desc (normalize scenario_beliefs) = [(''battery'', 0.5), (''power_supply'', 0.5)]"
    by (simp add: scenario_beliefs_def update_defs)
  have lk: "dict_get scenario_beliefs ''power_supply'' = Some 0.5"
    by (simp add: scenario_beliefs_def dict_get_def)
  from non_star_multiplier_is_ignored[of "JNum 2" scenario_beliefs "''power_supply''"
         "[(''battery'', JStr ''*0.6'')]"
         "[(''power_supply'', JNum 2), (''battery'', JStr ''0.5'')]"
         scenario_engine "''battery_led''" "''yes''" "[]"]
  show ?thesis using s1 s2 all fu d t srt lk by simp
qed

subsection \<open>Claims about the question selector\<close>

lemmas selector_defs = selector_engine_def selector_beliefs_def selector_input_def
  fan_question_def learned_fan_row_def select_next_question_def candidate_questions_def
  should_ask_question_def question_affects_top_causes_def get_confidence_def
  learned_candidate_def fill_required_fields_def gain_key_def dict_get_def dict_keys_def
  dict_values_def

lemma py_max_by_first_maximal:
  "py_max_by f x xs = m \<Longrightarrow>
   (m = x \<and> (\<forall>y \<in> set xs. f y \<le> f x))
   \<or> (\<exists>pre post. xs = pre @ m # post \<and> f x < f m
         \<and> (\<forall>y \<in> set pre. f y < f m) \<and> (\<forall>y \<in> set post. f y \<le> f m))"
proof (induction xs arbitrary: x)
  case Nil
  then show ?case by simp
next
  case (Cons a xs)
  show ?case
  proof (cases "f a > f x")
    case True
    with Cons.prems have "py_max_by f a xs = m" by simp
    from Cons.IH[OF this] show ?thesis
    proof
      assume "m = a \<and> (\<forall>y \<in> set xs. f y \<le> f a)"
      with True have "a # xs = [] @ m # xs \<and> f x < f m
         \<and> (\<forall>y \<in> set []. f y < f m) \<and> (\<forall>y \<in> set xs. f y \<le> f m)" by simp
      then show ?thesis by blast
    next
      assume "\<exists>pre post. xs = pre @ m # post \<and> f a < f m
         \<and> (\<forall>y \<in> set pre. f y < f m) \<and> (\<forall>y \<in> set post. f y \<le> f m)"
      then obtain pre post where p: "xs = pre @ m # post" "f a < f m"
        "\<forall>y \<in> set pre. f y < f m" "\<forall>y \<in> set post. f y \<le> f m" by blast
      with True have "a # xs = (a # pre) @ m # post \<and> f x < f m
         \<and> (\<forall>y \<in> set (a # pre). f y < f m) \<and> (\<forall>y \<in> set post. f y \<le> f m)" by auto
      then show ?thesis by blast
    qed
  next
    case False
    with Cons.prems have "py_max_by f x xs = m" by simp
    from Cons.IH[OF this] show ?thesis
    proof
      assume "m = x \<and> (\<forall>y \<in> set xs. f y \<le> f x)"
      with False show ?thesis by auto
    next
      assume "\<exists>pre post. xs = pre @ m # post \<and> f x < f m
         \<and> (\<forall>y \<in> set pre. f y < f m) \<and> (\<forall>y \<in> set post. f y \<le> f m)"
      then obtain pre post where p: "xs = pre @ m # post" "f x < f m"
        "\<forall>y \<in> set pre. f y < f m" "\<forall>y \<in> set post. f y \<le> f m" by blast
      with False have "a # xs = (a # pre) @ m # post \<and> f x < f m
         \<and> (\<forall>y \<in> set (a # pre). f y < f m) \<and> (\<forall>y \<in> set post. f y \<le> f m)" by auto
      then show ?thesis by blast
    qed
  qed
qed

lemma py_max_by_split:
  "\<exists>pre post. x # xs = pre @ py_max_by f x xs # post
      \<and> (\<forall>y \<in> set pre. f y < f (py_max_by f x xs))
      \<and> (\<forall>y \<in> set post. f y \<le> f (py_max_by f x xs))"
proof -
  define m where "m = py_max_by f x xs"
  from py_max_by_first_maximal[OF m_def[symmetric]] show ?thesis
    unfolding m_def[symmetric]
  proof
    assume "m = x \<and> (\<forall>y \<in> set xs. f y \<le> f x)"
    then have "x # xs = [] @ m # xs \<and> (\<forall>y \<in> set []. f y < f m) \<and> (\<forall>y \<in> set xs. f y \<le> f m)"
      by simp
    then show "\<exists>pre post. x # xs = pre @ m # post
      \<and> (\<forall>y \<in> set pre. f y < f m) \<and> (\<forall>y \<in> set post. f y \<le> f m)" by blast
  next
    assume "\<exists>pre post. xs = pre @ m # post \<and> f x < f m
         \<and> (\<forall>y \<in> set pre. f y < f m) \<and> (\<forall>y \<in> set post. f y \<le> f m)"
    then obtain pre post where p: "xs = pre @ m # post" "f x < f m"
        "\<forall>y \<in> set pre. f y < f m" "\<forall>y \<in> set post. f y \<le> f m" by blast
    then have "x # xs = (x # pre) @ m # post \<and> (\<forall>y \<in> set (x # pre). f y < f m)
        \<and> (\<forall>y \<in> set post. f y \<le> f m)" by auto
    then show "\<exists>pre post. x # xs = pre @ m # post
      \<and> (\<forall>y \<in> set pre. f y < f m) \<and> (\<forall>y \<in> set post. f y \<le> f m)" by blast
  qed
qed

lemma valid_questions_filter:
  "valid_questions eng b inp asked qs = Inr vs \<Longrightarrow>
   vs = filter (\<lambda>q. should_ask_question eng (q_id q) b inp asked = Inr (True, None)) qs"
proof (induction qs arbitrary: vs)
  case Nil
  then show ?case by simp
next
  case (Cons q qs)
  from Cons.prems obtain should_ask reason ws where
    sa: "should_ask_question eng (q_id q) b inp asked = Inr (should_ask, reason)"
    and rec: "valid_questions eng b inp asked qs = Inr ws"
    and vs: "vs = (if should_ask then q # ws else ws)"
    by (auto split: sum.splits prod.splits)
  have r: "should_ask \<longleftrightarrow> (should_ask, reason) = (True, None)"
    using sa by (auto simp: should_ask_question_def Let_def
                      split: option.splits if_splits sum.splits)
  from Cons.IH[OF rec] vs sa r show ?case by auto
qed

lemma fill_required_fields_keeps:
  "q_id (fill_required_fields eng q) = q_id q
   \<and> gain_key (fill_required_fields eng q) = gain_key q"
  by (simp add: fill_required_fields_def gain_key_def split: option.splits)

text \<open>
  Claim C6, at the failing input. The approved learned question \<open>lq_fan_noise\<close> of the
  session's category is a candidate, and nothing in its data would make a filter skip
  it: its gain is 0.9. But \<open>should_ask_question\<close> looks every candidate up in
  \<open>base_questions\<close> and rejects it as not found, so \<open>select_next_question\<close> returns the
  base question \<open>q_b\<close> of lower gain, and returns nothing once the base questions are
  asked.
\<close>

theorem learned_question_never_selected:
  "candidate_questions selector_engine [''q_b'', ''q_a''] ''PC'' = [learned_candidate learned_fan_row]
   \<and> should_ask_question selector_engine ''lq_fan_noise'' selector_beliefs selector_input
        [''q_b'', ''q_a''] = Inr (False, Some QuestionNotFound)
   \<and> select_next_question selector_engine selector_beliefs selector_input [''q_b'', ''q_a''] ''PC''
        = Inr None
   \<and> select_next_question selector_engine selector_beliefs selector_input [] ''PC''
        = Inr (Some (fan_question ''q_b''))"
  by (simp add: selector_defs)

text \<open>
  Claim C7, as stated: among the surviving questions of highest gain the one with the
  lowest id is returned. It fails: \<open>q_b\<close> and \<open>q_a\<close> both survive with gain 0.8, and
  \<open>q_b\<close>, which is stored first, is returned.
\<close>

theorem lowest_id_tie_break_counterexample:
  "valid_questions selector_engine selector_beliefs selector_input []
       (candidate_questions selector_engine [] ''PC'')
     = Inr [fan_question ''q_b'', fan_question ''q_a'']
   \<and> gain_key (fan_question ''q_a'') = gain_key (fan_question ''q_b'')
   \<and> q_id (fan_question ''q_a'') < q_id (fan_question ''q_b'')
   \<and> select_next_question selector_engine selector_beliefs selector_input [] ''PC''
       = Inr (Some (fan_question ''q_b''))
   \<and> q_id (fan_question ''q_b'') \<noteq> q_id (fan_question ''q_a'')"
  by (simp add: selector_defs)

text \<open>
  Claim C7, amended. The surviving questions are the candidates that
  \<open>should_ask_question\<close> accepts, in candidate order. If there is one,
  \<open>select_next_question\<close> returns the first survivor of highest gain: every survivor
  before it has a strictly lower gain and every survivor after it has no higher gain.
\<close>

theorem select_next_question_first_of_highest_gain:
  "valid_questions eng b inp asked (candidate_questions eng asked category) = Inr valid
   \<and> valid \<noteq> []
   \<longrightarrow> valid = filter (\<lambda>q. should_ask_question eng (q_id q) b inp asked = Inr (True, None))
                 (candidate_questions eng asked category)
     \<and> (\<exists>best pre post.
           select_next_question eng b inp asked category
             = Inr (Some (fill_required_fields eng best))
           \<and> q_id (fill_required_fields eng best) = q_id best
           \<and> gain_key (fill_required_fields eng best) = gain_key best
           \<and> valid = pre @ best # post
           \<and> (\<forall>q \<in> set pre. gain_key q < gain_key best)
           \<and> (\<forall>q \<in> set post. gain_key q \<le> gain_key best))"
proof (intro impI conjI)
  assume a: "valid_questions eng b inp asked (candidate_questions eng asked category) = Inr valid
   \<and> valid \<noteq> []"
  then show "valid = filter (\<lambda>q. should_ask_question eng (q_id q) b inp asked = Inr (True, None))
                 (candidate_questions eng asked category)"
    using valid_questions_filter by blast
  from a obtain v vs where v: "valid = v # vs" by (cases valid) auto
  define best where "best = py_max_by gain_key v vs"
  have sel: "select_next_question eng b inp asked category
             = Inr (Some (fill_required_fields eng best))"
    using a v by (simp add: select_next_question_def best_def)
  from py_max_by_split[of v vs gain_key] obtain pre post where
    "v # vs = pre @ best # post" "\<forall>q \<in> set pre. gain_key q < gain_key best"
    "\<forall>q \<in> set post. gain_key q \<le> gain_key best"
    unfolding best_def by blast
  with sel v fill_required_fields_keeps[of eng best]
  show "\<exists>best pre post.
           select_next_question eng b inp asked category
             = Inr (Some (fill_required_fields eng best))
           \<and> q_id (fill_required_fields eng best) = q_id best
           \<and> gain_key (fill_required_fields eng best) = gain_key best
           \<and> valid = pre @ best # post
           \<and> (\<forall>q \<in> set pre. gain_key q < gain_key best)
           \<and> (\<forall>q \<in> set post. gain_key q \<le> gain_key best)"
    by blast
qed

theorem select_next_question_first_of_highest_gain_witness:
  "valid_questions selector_engine selector_beliefs selector_input []
       (candidate_questions selector_engine [] ''PC'')
     = Inr [fan_question ''q_b'', fan_question ''q_a'']
   \<and> (\<exists>best pre post.
         select_next_question selector_engine selector_beliefs selector_input [] ''PC''
           = Inr (Some (fill_required_fields selector_engine best))
         \<and> [fan_question ''q_b'', fan_question ''q_a''] = pre @ best # post
         \<and> (\<forall>q \<in> set pre. gain_key q < gain_key best)
         \<and> (\<forall>q \<in> set post. gain_key q \<le> gain_key best))"
proof -
  have v: "valid_questions selector_engine selector_beliefs selector_input []
       (candidate_questions selector_engine [] ''PC'')
     = Inr [fan_question ''q_b'', fan_question ''q_a'']"
    by (simp add: selector_defs)
  from select_next_question_first_of_highest_gain[of selector_engine selector_beliefs
         selector_input "[]" "''PC''" "[fan_question ''q_b'', fan_question ''q_a'']"] v
  show ?thesis by blast
qed

subsection \<open>Claims about the tutorial matcher\<close>

lemmas matcher_defs = search_tutorials_hybrid_def scenario_matcher_def tutorial_7_def
  vector_search_def keyword_search_def hybrid_scoring_def feedback_reranking_def
  rerank_one_def feedback_stats_def truthy_def jaccard_def lookup_by_id_def dict_keys_def
  dict_get_def beta_def gamma_def sql_avg_def card_insert_if

text \<open>
  Claim C1, at the failing input. Neither retrieval stage reads its \<open>category\<close>
  parameter, so any two categories give the same results; a query for the category
  \<open>PC\<close> gets tutorial 7 from both stages, and tutorial 7 is stored with the category
  \<open>Phone\<close> in both stores.
\<close>

theorem retrieval_ignores_category:
  "vector_search m search_text category brand k = vector_search m search_text category' brand k
   \<and> keyword_search m keywords category brand limit = keyword_search m keywords category' brand limit
   \<and> map (\<lambda>h. t_tutorial_id (vh_info h))
        (vector_search scenario_matcher ''battery_failure no_power battery power'' ''PC'' None 50) = [7]
   \<and> map (\<lambda>h. t_tutorial_id (kh_info h))
        (keyword_search scenario_matcher [''battery'', ''power''] ''PC'' None 50) = [7]
   \<and> map row_category (filter (\<lambda>r. t_tutorial_id (row_info r) = 7) (weaviate_objects scenario_matcher))
        = [Some ''Phone'']
   \<and> map row_category (filter (\<lambda>r. t_tutorial_id (row_info r) = 7) (tutorials_table scenario_matcher))
        = [Some ''Phone'']
   \<and> Some ''Phone'' \<noteq> Some ''PC''"
  by (simp add: vector_search_def keyword_search_def scenario_matcher_def tutorial_7_def
        truthy_def)

text \<open>
  Claim C2, at the failing input. In scenario C the candidate has the hybrid score
  0.64 and no feedback. It gets the feedback score 0.5, but its final score is the
  hybrid score 0.64 itself, not \<open>0.64 \<sqdot> (1 + 0.3 \<sqdot> 0.5) = 0.736\<close>.
\<close>

theorem no_feedback_final_score_not_amplified:
  "map (\<lambda>r. (t_tutorial_id (hr_info (fr_hybrid r)), hr_vector_score (fr_hybrid r),
              hr_keyword_score (fr_hybrid r), hr_hybrid_score (fr_hybrid r),
              fr_feedback_count r, fr_feedback_score r, fr_final_score r))
     (search_tutorials_hybrid scenario_matcher ''battery_failure'' [''no_power'']
        [''battery'', ''power''] ''PC'' None 10)
     = [(7, 0.8, 0.4, 0.64, 0, 0.5, 0.64)]
   \<and> 0.64 * (1 + gamma * 0.5) = 0.736
   \<and> (0.64 :: real) \<noteq> 0.736"
  by (simp add: matcher_defs)

subsection \<open>Claims about the session orchestrator\<close>

lemma confidence_stagnating_last_three:
  assumes "length history \<ge> 3"
  shows "confidence_stagnating history
         \<longleftrightarrow> history ! (length history - 1) - history ! (length history - 3) < 0.05"
proof -
  define n where "n = length history - 3"
  have len: "length (drop n history) = 3"
    using assms by (simp add: n_def)
  then obtain c0 c1 c2 where d: "drop n history = [c0, c1, c2]"
    by (cases "drop n history" rule: list.exhaust)
       (auto simp: length_Suc_conv numeral_3_eq_3)
  have "c0 = drop n history ! 0" and "c2 = drop n history ! 2"
    using d by simp_all
  then have "c0 = history ! n" and "c2 = history ! (n + 2)"
    using assms by (simp_all add: n_def)
  moreover have "n + 2 = length history - 1"
    using assms by (simp add: n_def)
  ultimately show ?thesis
    using d by (simp add: confidence_stagnating_def n_def[symmetric])
qed

text \<open>
  Claim C8. When the handler has updated the beliefs for an answer, at least two
  questions have been asked, and the last of the recorded confidence values exceeds
  the third from last by less than 0.05, the handler answers with the state
  \<open>uncertain\<close> and the tutorials of a search with limit 8, whatever the confidence is.
  The sequence 0.40, 0.42, 0.44 is stagnating.
\<close>

theorem stagnation_escape_to_uncertain:
  "(dict_get (active_sessions sys) (a_session_id ad) = Some s
    \<and> \<not> bypass_requested (a_answer ad)
    \<and> update_step (sys_engine sys) s ad = Inr updated
    \<and> history = (case s_confidence_history s of None \<Rightarrow> [] | Some h \<Rightarrow> h)
                  @ [get_confidence updated]
    \<and> length history \<ge> 3
    \<and> history ! (length history - 1) - history ! (length history - 3) < 0.05
    \<and> length (s_asked_questions s @ [a_question_id ad]) \<ge> 2
    \<longrightarrow> (\<exists>resp sys'.
           answer_question sys ad = Inr (resp, sys')
           \<and> resp_diagnosis_state resp = ''uncertain''
           \<and> resp_log_action resp = ''confidence_stagnating_escape''
           \<and> resp_current_belief resp = updated
           \<and> resp_next_question resp = None
           \<and> resp_tutorials resp
               = Some (match_tutorials (sys_matcher sys) (s_processed_input s)
                         (fst (get_diagnosis updated)) 8)))
   \<and> confidence_stagnating [0.40, 0.42, 0.44]"
proof (intro conjI impI)
  assume a: "dict_get (active_sessions sys) (a_session_id ad) = Some s
    \<and> \<not> bypass_requested (a_answer ad)
    \<and> update_step (sys_engine sys) s ad = Inr updated
    \<and> history = (case s_confidence_history s of None \<Rightarrow> [] | Some h \<Rightarrow> h)
                  @ [get_confidence updated]
    \<and> length history \<ge> 3
    \<and> history ! (length history - 1) - history ! (length history - 3) < 0.05
    \<and> length (s_asked_questions s @ [a_question_id ad]) \<ge> 2"
  then have st: "confidence_stagnating history"
    using confidence_stagnating_last_three by blast
  have aq: "answer_question sys ad = after_update sys s ad updated"
    using a by (simp add: answer_question_def)
  obtain top_cause confidence where gd: "get_diagnosis updated = (top_cause, confidence)"
    by (cases "get_diagnosis updated")
  have "after_update sys s ad updated =
          Inr (\<lparr>resp_session_id = a_session_id ad, resp_diagnosis_state = ''uncertain'',
                resp_current_belief = updated, resp_next_question = None,
                resp_tutorials =
                  Some (match_tutorials (sys_matcher sys) (s_processed_input s) top_cause 8),
                resp_log_action = ''confidence_stagnating_escape''\<rparr>,
               sys\<lparr>active_sessions :=
                     dict_set (active_sessions sys) (a_session_id ad)
                       (s\<lparr>s_current_belief := updated,
                          s_asked_questions := s_asked_questions s @ [a_question_id ad],
                          s_confidence_history := Some history,
                          s_diagnosis := Some top_cause, s_confidence := Some confidence\<rparr>)\<rparr>)"
    using a st gd by (simp add: after_update_def Let_def)
  with aq gd show "\<exists>resp sys'.
           answer_question sys ad = Inr (resp, sys')
           \<and> resp_diagnosis_state resp = ''uncertain''
           \<and> resp_log_action resp = ''confidence_stagnating_escape''
           \<and> resp_current_belief resp = updated
           \<and> resp_next_question resp = None
           \<and> resp_tutorials resp
               = Some (match_tutorials (sys_matcher sys) (s_processed_input s)
                         (fst (get_diagnosis updated)) 8)"
    by simp
next
  show "confidence_stagnating [0.40, 0.42, 0.44]"
    by (simp add: confidence_stagnating_def)
qed

theorem stagnation_escape_to_uncertain_witness:
  "dict_get (active_sessions stagnation_system) (a_session_id stagnation_answer)
     = Some stagnation_session
   \<and> \<not> bypass_requested (a_answer stagnation_answer)
   \<and> update_step (sys_engine stagnation_system) stagnation_session stagnation_answer
       = Inr [(''fan_failure'', 0.44), (''dust_buildup'', 11 / 35),
              (''thermal_paste'', 104 / 525), (''bios_settings'', 1 / 21)]
   \<and> get_confidence [(''fan_failure'', 0.44), (''dust_buildup'', 11 / 35),
                      (''thermal_paste'', 104 / 525), (''bios_settings'', 1 / 21)] = 0.44
   \<and> (0.44 :: real) < 0.75
   \<and> (\<exists>resp sys'.
         answer_question stagnation_system stagnation_answer = Inr (resp, sys')
         \<and> resp_diagnosis_state resp = ''uncertain''
         \<and> resp_log_action resp = ''confidence_stagnating_escape'')"
proof -
  let ?u = "[(''fan_failure'', 0.44 :: real), (''dust_buildup'', 11 / 35),
             (''thermal_paste'', 104 / 525), (''bios_settings'', 1 / 21)]"
  let ?h = "[0.35, 0.40, 0.42, 0.44 :: real]"
  have s: "dict_get (active_sessions stagnation_system) (a_session_id stagnation_answer)
             = Some stagnation_session"
    by (simp add: stagnation_system_def stagnation_answer_def dict_get_def)
  have nb: "\<not> bypass_requested (a_answer stagnation_answer)"
    by (simp add: stagnation_answer_def bypass_requested_def bypass_keywords_def
          py_lower_def lower_char_def)
  have up: "update_step (sys_engine stagnation_system) stagnation_session stagnation_answer
              = Inr ?u"
    by (simp add: update_step_def stagnation_system_def stagnation_session_def
          stagnation_answer_def stagnation_engine_def update_defs py_float_defs)
  have gc: "get_confidence ?u = 0.44"
    by (simp add: get_confidence_def dict_values_def)
  have h: "?h = (case s_confidence_history stagnation_session of None \<Rightarrow> [] | Some h \<Rightarrow> h)
                @ [get_confidence ?u]"
    unfolding gc by (simp add: stagnation_session_def)
  have l3: "length ?h \<ge> 3" by simp
  have imp: "?h ! (length ?h - 1) - ?h ! (length ?h - 3) < 0.05" by simp
  have asked: "length (s_asked_questions stagnation_session @ [a_question_id stagnation_answer]) \<ge> 2"
    by (simp add: stagnation_session_def)
  from stagnation_escape_to_uncertain[of stagnation_system stagnation_answer
         stagnation_session ?u ?h] s nb up h l3 imp asked
  have "\<exists>resp sys'.
         answer_question stagnation_system stagnation_answer = Inr (resp, sys')
         \<and> resp_diagnosis_state resp = ''uncertain''
         \<and> resp_log_action resp = ''confidence_stagnating_escape''"
    by blast
  with s nb up gc show ?thesis by simp
qed

end
